theory Spec2Isabelle
  imports Main "HOL-Library.Word"
begin

section \<open>Utility-statement dispatch of Postgres-XC (src/backend/tcop/utility.c)\<close>

text \<open>
  A shallow embedding of \<^verbatim>\<open>utility.c\<close>: the command classifier
  \<^verbatim>\<open>CreateCommandTag\<close>, the guards \<^verbatim>\<open>check_xact_readonly\<close>,
  \<^verbatim>\<open>PreventCommandIfReadOnly\<close>, \<^verbatim>\<open>PreventCommandDuringRecovery\<close> and
  \<^verbatim>\<open>CheckRestrictedOperation\<close>, the dispatcher \<^verbatim>\<open>standard_ProcessUtility\<close>
  with its router \<^verbatim>\<open>ExecUtilityStmtOnNodes\<close>, and the two functions
  \<^verbatim>\<open>UtilityReturnsTuples\<close> and \<^verbatim>\<open>UtilityTupleDescriptor\<close>.

  The file's global and ambient inputs (build flag, node role, session flags, and the
  values that calls into other files return) are the fields of the record \<open>env\<close>.
  What a dispatch changes is the record \<open>state\<close>: the transaction block state, the
  contents of the caller's buffers, and the trace of the calls the dispatcher makes into
  other files, in order.  An \<^verbatim>\<open>ereport(ERROR, ...)\<close> leaves the function at once;
  the state reached so far stays as it is.
\<close>

subsection \<open>Parse-tree data\<close>

datatype ObjectType =
    OBJECT_AGGREGATE | OBJECT_ATTRIBUTE | OBJECT_CAST | OBJECT_COLUMN | OBJECT_CONSTRAINT
  | OBJECT_COLLATION | OBJECT_CONVERSION | OBJECT_DATABASE | OBJECT_DOMAIN | OBJECT_EXTENSION
  | OBJECT_FDW | OBJECT_FOREIGN_SERVER | OBJECT_FOREIGN_TABLE | OBJECT_FUNCTION | OBJECT_INDEX
  | OBJECT_LANGUAGE | OBJECT_LARGEOBJECT | OBJECT_OPCLASS | OBJECT_OPERATOR | OBJECT_OPFAMILY
  | OBJECT_ROLE | OBJECT_RULE | OBJECT_SCHEMA | OBJECT_SEQUENCE | OBJECT_TABLE
  | OBJECT_TABLESPACE | OBJECT_TRIGGER | OBJECT_TSCONFIGURATION | OBJECT_TSDICTIONARY
  | OBJECT_TSPARSER | OBJECT_TSTEMPLATE | OBJECT_TYPE | OBJECT_VIEW
  | OBJECT_unknown \<comment> \<open>any other value of the C enum: the \<^verbatim>\<open>default:\<close> branches\<close>

datatype TransactionStmtKind =
    TRANS_STMT_BEGIN | TRANS_STMT_START | TRANS_STMT_COMMIT | TRANS_STMT_ROLLBACK
  | TRANS_STMT_SAVEPOINT | TRANS_STMT_RELEASE | TRANS_STMT_ROLLBACK_TO | TRANS_STMT_PREPARE
  | TRANS_STMT_COMMIT_PREPARED | TRANS_STMT_ROLLBACK_PREPARED
  | TRANS_STMT_unknown \<comment> \<open>any other value of the C enum\<close>

datatype CmdType =
  CMD_UNKNOWN | CMD_SELECT | CMD_UPDATE | CMD_INSERT | CMD_DELETE | CMD_UTILITY | CMD_NOTHING

datatype RowMarkType = ROW_MARK_EXCLUSIVE | ROW_MARK_other

datatype GrantObjectType = ACL_OBJECT_RELATION | ACL_OBJECT_SEQUENCE | ACL_OBJECT_other

datatype GrantTargetType = ACL_TARGET_OBJECT | ACL_TARGET_other

datatype VariableSetKind =
    VAR_SET_VALUE | VAR_SET_DEFAULT | VAR_SET_CURRENT | VAR_SET_MULTI | VAR_RESET | VAR_RESET_ALL
  | VAR_unknown

datatype DiscardMode = DISCARD_ALL | DISCARD_PLANS | DISCARD_TEMP | DISCARD_unknown

datatype relkind =
    RELKIND_RELATION | RELKIND_SEQUENCE | RELKIND_VIEW | RELKIND_FOREIGN_TABLE
  | RELKIND_TOASTVALUE | RELKIND_other

datatype RemoteQueryExecType = EXEC_ON_DATANODES | EXEC_ON_COORDS | EXEC_ON_ALL_NODES

datatype CombineType = COMBINE_TYPE_NONE | COMBINE_TYPE_SAME

text \<open>The \<^verbatim>\<open>RemoteQuery\<close> step, with the fields this file sets.\<close>

record RemoteQuery =
  combine_type :: CombineType
  exec_nodes :: "nat list option"
  sql_statement :: string
  force_autocommit :: bool
  exec_type :: RemoteQueryExecType

text \<open>A \<^verbatim>\<open>DefElem\<close>: its \<^verbatim>\<open>defname\<close> and the string value of its \<^verbatim>\<open>arg\<close>.\<close>

type_synonym DefElem = "string \<times> string"

text \<open>
  The parse tree handed to the dispatcher: one constructor for each node tag that a
  switch of the file names, with the fields of the C struct that the file reads.
  \<^item> \<open>T_CreateStmt\<close>, \<open>T_CreateForeignTableStmt\<close> and \<open>T_AlterTableStmt\<close> carry the
    statement list that parse analysis (\<^verbatim>\<open>transformCreateStmt\<close>,
    \<^verbatim>\<open>transformAlterTableStmt\<close>; another file) returns for them.
  \<^item> A pointer field that may be \<^verbatim>\<open>NULL\<close> is an \<open>option\<close>; a field of which only
    \<^verbatim>\<open>!= NULL\<close> is read is a \<open>bool\<close>.
  \<^item> \<open>T_OtherNode\<close> stands for every node tag that no switch of the file names.
\<close>

datatype (plugins only: size) Node =
    T_InsertStmt | T_DeleteStmt | T_UpdateStmt | T_SelectStmt
  | T_TransactionStmt TransactionStmtKind "DefElem list" string
      \<comment> \<open>kind, options, gid\<close>
  | T_PlannedStmt CmdType "Node option" bool "RowMarkType list" bool
      \<comment> \<open>commandType, utilityStmt, intoClause != NULL, rowMarks (markType), hasModifyingCTE\<close>
  | T_Query CmdType "Node option" bool "bool list"
      \<comment> \<open>commandType, utilityStmt, intoClause != NULL, rowMarks (forUpdate)\<close>
  | T_DeclareCursorStmt
  | T_ClosePortalStmt "string option" \<comment> \<open>portalname\<close>
  | T_FetchStmt bool string \<comment> \<open>ismove, portalname\<close>
  | T_CreateDomainStmt
  | T_CreateSchemaStmt
  | T_CreateStmt "Node list" \<comment> \<open>the list transformCreateStmt returns\<close>
  | T_CreateForeignTableStmt "Node list" \<comment> \<open>the list transformCreateStmt returns\<close>
  | T_CreateTableSpaceStmt | T_DropTableSpaceStmt | T_AlterTableSpaceOptionsStmt
  | T_CreateExtensionStmt | T_AlterExtensionStmt | T_AlterExtensionContentsStmt
  | T_CreateFdwStmt | T_AlterFdwStmt | T_DropFdwStmt
  | T_CreateForeignServerStmt | T_AlterForeignServerStmt | T_DropForeignServerStmt
  | T_CreateUserMappingStmt | T_AlterUserMappingStmt | T_DropUserMappingStmt
  | T_DropStmt ObjectType \<comment> \<open>removeType\<close>
  | T_TruncateStmt
  | T_CommentStmt ObjectType \<comment> \<open>objtype\<close>
  | T_SecLabelStmt
  | T_CopyStmt
  | T_PrepareStmt
  | T_ExecuteStmt bool string \<comment> \<open>into != NULL, name\<close>
  | T_DeallocateStmt "string option" \<comment> \<open>name\<close>
  | T_RenameStmt ObjectType string \<comment> \<open>renameType, relation\<close>
  | T_AlterObjectSchemaStmt ObjectType string \<comment> \<open>objectType, relation\<close>
  | T_AlterOwnerStmt ObjectType \<comment> \<open>objectType\<close>
  | T_AlterTableStmt ObjectType string "Node list"
      \<comment> \<open>relkind, relation, the list transformAlterTableStmt returns\<close>
  | T_AlterDomainStmt char \<comment> \<open>subtype\<close>
  | T_AlterFunctionStmt
  | T_GrantStmt bool GrantObjectType GrantTargetType "string list"
      \<comment> \<open>is\_grant, objtype, targtype, objects\<close>
  | T_GrantRoleStmt bool \<comment> \<open>is\_grant\<close>
  | T_AlterDefaultPrivilegesStmt
  | T_DefineStmt ObjectType bool \<comment> \<open>kind, args == NIL\<close>
  | T_CompositeTypeStmt | T_CreateEnumStmt | T_AlterEnumStmt | T_ViewStmt
  | T_CreateFunctionStmt
  | T_IndexStmt bool bool \<comment> \<open>concurrent, isconstraint\<close>
  | T_RuleStmt string \<comment> \<open>relation\<close>
  | T_CreateSeqStmt | T_AlterSeqStmt
  | T_RemoveFuncStmt ObjectType \<comment> \<open>kind\<close>
  | T_DoStmt | T_CreatedbStmt | T_AlterDatabaseStmt | T_AlterDatabaseSetStmt
  | T_DropdbStmt string \<comment> \<open>dbname\<close>
  | T_NotifyStmt | T_ListenStmt
  | T_UnlistenStmt bool \<comment> \<open>conditionname != NULL\<close>
  | T_LoadStmt | T_ClusterStmt
  | T_VacuumStmt bool \<comment> \<open>options \& VACOPT\_VACUUM\<close>
  | T_ExplainStmt
  | T_VariableSetStmt VariableSetKind bool \<comment> \<open>kind, is\_local\<close>
  | T_VariableShowStmt string \<comment> \<open>name\<close>
  | T_DiscardStmt DiscardMode \<comment> \<open>target\<close>
  | T_CreateTrigStmt
  | T_DropPropertyStmt ObjectType string \<comment> \<open>removeType, relation\<close>
  | T_CreatePLangStmt | T_DropPLangStmt
  | T_CreateRoleStmt | T_AlterRoleStmt | T_AlterRoleSetStmt | T_DropRoleStmt
  | T_DropOwnedStmt | T_ReassignOwnedStmt | T_LockStmt | T_ConstraintsSetStmt
  | T_CheckPointStmt
  | T_BarrierStmt string \<comment> \<open>id\<close>
  | T_ReindexStmt ObjectType \<comment> \<open>kind\<close>
  | T_CreateConversionStmt | T_CreateCastStmt | T_DropCastStmt
  | T_CreateOpClassStmt | T_CreateOpFamilyStmt | T_AlterOpFamilyStmt
  | T_RemoveOpClassStmt | T_RemoveOpFamilyStmt
  | T_AlterTSDictionaryStmt | T_AlterTSConfigurationStmt
  | T_RemoteQuery RemoteQuery
  | T_CleanConnStmt
  | T_ExecDirectStmt
  | T_OtherNode nat

subsection \<open>Errors, environment, state\<close>

datatype errcode =
    ERRCODE_READ_ONLY_SQL_TRANSACTION | ERRCODE_INSUFFICIENT_PRIVILEGE
  | ERRCODE_STATEMENT_TOO_COMPLEX | ERRCODE_FEATURE_NOT_SUPPORTED

text \<open>
  What leaves a function abnormally.  \<open>ereport_error c m d\<close> is
  \<^verbatim>\<open>ereport(ERROR, (errcode(c), errmsg(m), errdetail(d)))\<close> with the \<^verbatim>\<open>%s\<close> of the
  message filled in and \<open>d\<close> empty when the call gives no detail; \<open>elog_error m\<close> is
  \<^verbatim>\<open>elog(ERROR, m, ...)\<close> with the text of \<open>m\<close> up to its \<^verbatim>\<open>%d\<close> (the number of
  an enum value is fixed in headers outside this file); \<open>Assert_failure\<close> is a failed
  \<^verbatim>\<open>Assert\<close>.  The last two are the errors of the transaction-block guards, which
  live in another file.
\<close>

datatype error =
    ereport_error errcode string string
  | elog_error string
  | Assert_failure
  | requires_transaction_block string
  | forbidden_in_transaction_block string

datatype checkpoint_flag = CHECKPOINT_IMMEDIATE | CHECKPOINT_FORCE | CHECKPOINT_WAIT

text \<open>
  The session's transaction state as the dispatcher sees it.
\<close>

datatype TBlockState = Idle | InBlock | PreparedPendingRemote

text \<open>
  The inputs of a dispatch that the file reads but does not own: the build flag
  \<^verbatim>\<open>PGXC\<close> (true in every build of this repository; the branches for an undefined
  flag are kept), the macros and functions of other files that only report a fact, and
  the values returned by the calls whose result the dispatcher branches on.
\<close>

record env =
  PGXC :: bool
  IS_PGXC_COORDINATOR :: bool
  IsConnFromCoord :: bool
  XactReadOnly :: bool
  RecoveryInProgress :: bool
  InSecurityRestrictedOperation :: bool
  superuser :: bool
  COMPLETION_TAG_BUFSIZE :: nat
  get_rel_relkind :: "string \<Rightarrow> relkind"
    \<comment> \<open>\<^verbatim>\<open>get_rel_relkind(RangeVarGetRelid(relation, false))\<close>\<close>
  EndTransactionBlock_result :: bool
  PrepareTransactionBlock_result :: bool
  PGXCNodePrepare_result :: bool
  PGXCNodeRollbackPrepared_result :: bool
  PoolManagerSetCommand_result :: int
  DoCopy_result :: "64 word"
  completionTag_written :: "string \<Rightarrow> string option"
    \<comment> \<open>what the function of that name leaves in a \<^verbatim>\<open>completionTag\<close> it is handed;
      \<open>None\<close>: it leaves the buffer as it is\<close>

text \<open>
  One entry of the trace: a call into another file (its name and the arguments that are
  not the parse tree itself), a command-counter increment, a statement handed to the
  remote-execution transport, a checkpoint request with its flags.  The flags are
  single bits that are or-ed together in C; here they are a set.
\<close>

datatype event =
    Called string "string list"
  | CCI
  | Remote RemoteQuery
  | Checkpoint "checkpoint_flag set"

type_synonym addr = nat

record state =
  blockState :: TBlockState
  mem :: "addr \<Rightarrow> string" \<comment> \<open>the C strings held by the caller's buffers\<close>
  trace :: "event list"

text \<open>
  A \<open>proc\<close> is a C statement: it runs on a state and either completes or raises.
  \<open>block\<close> is the compound statement: it stops at the first error.
\<close>

type_synonym proc = "state \<Rightarrow> error option \<times> state"

definition skip :: proc where
  "skip st = (None, st)"

definition throw :: "error \<Rightarrow> proc" where
  "throw e st = (Some e, st)"

fun block :: "proc list \<Rightarrow> proc" where
  "block [] st = (None, st)"
| "block (p # ps) st = (case p st of (Some e, st') \<Rightarrow> (Some e, st') | (None, st') \<Rightarrow> block ps st')"

definition cond :: "bool \<Rightarrow> proc \<Rightarrow> proc" where
  "cond b p = (if b then p else skip)"

definition ifdef_PGXC :: "env \<Rightarrow> proc \<Rightarrow> proc" where
  "ifdef_PGXC env p = (if PGXC env then p else skip)"

definition ereport_ERROR :: "errcode \<Rightarrow> string \<Rightarrow> string \<Rightarrow> proc" where
  "ereport_ERROR c m d = throw (ereport_error c m d)"

definition elog_ERROR :: "string \<Rightarrow> proc" where
  "elog_ERROR m = throw (elog_error m)"

definition Assert :: "bool \<Rightarrow> proc" where
  "Assert b = (if b then skip else throw Assert_failure)"

definition call :: "string \<Rightarrow> string list \<Rightarrow> proc" where
  "call name args st = (None, st\<lparr>trace := trace st @ [Called name args]\<rparr>)"

text \<open>
  A call into another file that is handed \<^verbatim>\<open>completionTag\<close>: when the pointer is not
  \<^verbatim>\<open>NULL\<close>, the callee may write its own status string into the buffer.
\<close>

definition call_with_completionTag :: "string \<Rightarrow> string list \<Rightarrow> addr option \<Rightarrow> env \<Rightarrow> proc" where
  "call_with_completionTag name args completionTag env st =
     (case completionTag of
        None \<Rightarrow> (None, st\<lparr>trace := trace st @ [Called name args]\<rparr>)
      | Some p \<Rightarrow>
          (case completionTag_written env name of
             None \<Rightarrow> (None, st\<lparr>trace := trace st @ [Called name args]\<rparr>)
           | Some s \<Rightarrow>
               (None, st\<lparr>mem := (mem st)(p := s), trace := trace st @ [Called name args]\<rparr>)))"

definition CommandCounterIncrement :: proc where
  "CommandCounterIncrement st = (None, st\<lparr>trace := trace st @ [CCI]\<rparr>)"

definition ExecRemoteUtility :: "RemoteQuery \<Rightarrow> proc" where
  "ExecRemoteUtility step st = (None, st\<lparr>trace := trace st @ [Remote step]\<rparr>)"

definition RequestCheckpoint :: "checkpoint_flag set \<Rightarrow> proc" where
  "RequestCheckpoint flags st = (None, st\<lparr>trace := trace st @ [Checkpoint flags]\<rparr>)"

text \<open>\<^verbatim>\<open>strcpy(p, s)\<close> and \<^verbatim>\<open>snprintf(p, size, ...)\<close> on a buffer of the caller.\<close>

definition strcpy :: "addr \<Rightarrow> string \<Rightarrow> proc" where
  "strcpy p s st = (None, st\<lparr>mem := (mem st)(p := s)\<rparr>)"

definition snprintf :: "addr \<Rightarrow> nat \<Rightarrow> string \<Rightarrow> proc" where
  "snprintf p n s st = (if n = 0 then (None, st) else (None, st\<lparr>mem := (mem st)(p := take (n - 1) s)\<rparr>))"

text \<open>\<^verbatim>\<open>UINT64_FORMAT\<close>: the decimal digits of an unsigned number.\<close>

fun string_of_nat :: "nat \<Rightarrow> string" where
  "string_of_nat n =
     (if n < 10 then [char_of (48 + n)] else string_of_nat (n div 10) @ [char_of (48 + n mod 10)])"

declare string_of_nat.simps [simp del]

subsection \<open>The command classifier\<close>

definition AlterObjectTypeCommandTag :: "ObjectType \<Rightarrow> string" where
  "AlterObjectTypeCommandTag objtype =
     (case objtype of
        OBJECT_AGGREGATE \<Rightarrow> ''ALTER AGGREGATE''
      | OBJECT_ATTRIBUTE \<Rightarrow> ''ALTER TYPE''
      | OBJECT_CAST \<Rightarrow> ''ALTER CAST''
      | OBJECT_COLLATION \<Rightarrow> ''ALTER COLLATION''
      | OBJECT_COLUMN \<Rightarrow> ''ALTER TABLE''
      | OBJECT_CONSTRAINT \<Rightarrow> ''ALTER TABLE''
      | OBJECT_CONVERSION \<Rightarrow> ''ALTER CONVERSION''
      | OBJECT_DATABASE \<Rightarrow> ''ALTER DATABASE''
      | OBJECT_DOMAIN \<Rightarrow> ''ALTER DOMAIN''
      | OBJECT_EXTENSION \<Rightarrow> ''ALTER EXTENSION''
      | OBJECT_FDW \<Rightarrow> ''ALTER FOREIGN DATA WRAPPER''
      | OBJECT_FOREIGN_SERVER \<Rightarrow> ''ALTER SERVER''
      | OBJECT_FOREIGN_TABLE \<Rightarrow> ''ALTER FOREIGN TABLE''
      | OBJECT_FUNCTION \<Rightarrow> ''ALTER FUNCTION''
      | OBJECT_INDEX \<Rightarrow> ''ALTER INDEX''
      | OBJECT_LANGUAGE \<Rightarrow> ''ALTER LANGUAGE''
      | OBJECT_LARGEOBJECT \<Rightarrow> ''ALTER LARGE OBJECT''
      | OBJECT_OPCLASS \<Rightarrow> ''ALTER OPERATOR CLASS''
      | OBJECT_OPERATOR \<Rightarrow> ''ALTER OPERATOR''
      | OBJECT_OPFAMILY \<Rightarrow> ''ALTER OPERATOR FAMILY''
      | OBJECT_ROLE \<Rightarrow> ''ALTER ROLE''
      | OBJECT_RULE \<Rightarrow> ''ALTER RULE''
      | OBJECT_SCHEMA \<Rightarrow> ''ALTER SCHEMA''
      | OBJECT_SEQUENCE \<Rightarrow> ''ALTER SEQUENCE''
      | OBJECT_TABLE \<Rightarrow> ''ALTER TABLE''
      | OBJECT_TABLESPACE \<Rightarrow> ''ALTER TABLESPACE''
      | OBJECT_TRIGGER \<Rightarrow> ''ALTER TRIGGER''
      | OBJECT_TSCONFIGURATION \<Rightarrow> ''ALTER TEXT SEARCH CONFIGURATION''
      | OBJECT_TSDICTIONARY \<Rightarrow> ''ALTER TEXT SEARCH DICTIONARY''
      | OBJECT_TSPARSER \<Rightarrow> ''ALTER TEXT SEARCH PARSER''
      | OBJECT_TSTEMPLATE \<Rightarrow> ''ALTER TEXT SEARCH TEMPLATE''
      | OBJECT_TYPE \<Rightarrow> ''ALTER TYPE''
      | OBJECT_VIEW \<Rightarrow> ''ALTER VIEW''
      | OBJECT_unknown \<Rightarrow> ''???'')"

text \<open>
  \<^verbatim>\<open>CreateCommandTag\<close>.  The result is \<open>None\<close> where the C function does not
  return: a failed \<^verbatim>\<open>Assert\<close>, or the recursion into a \<^verbatim>\<open>utilityStmt\<close> that is
  \<^verbatim>\<open>NULL\<close>.  The warnings \<^verbatim>\<open>elog(WARNING, ...)\<close> of the default branches are
  not kept.  The first argument is the build flag \<^verbatim>\<open>PGXC\<close>: the case label
  \<^verbatim>\<open>T_BarrierStmt\<close> stands inside \<^verbatim>\<open>#ifdef PGXC\<close>.
\<close>

fun CreateCommandTag :: "bool \<Rightarrow> Node \<Rightarrow> string option" where
  "CreateCommandTag pgxc parsetree =
     (case parsetree of
        T_InsertStmt \<Rightarrow> Some ''INSERT''
      | T_DeleteStmt \<Rightarrow> Some ''DELETE''
      | T_UpdateStmt \<Rightarrow> Some ''UPDATE''
      | T_SelectStmt \<Rightarrow> Some ''SELECT''
      | T_TransactionStmt kind options gid \<Rightarrow>
          (case kind of
             TRANS_STMT_BEGIN \<Rightarrow> Some ''BEGIN''
           | TRANS_STMT_START \<Rightarrow> Some ''START TRANSACTION''
           | TRANS_STMT_COMMIT \<Rightarrow> Some ''COMMIT''
           | TRANS_STMT_ROLLBACK \<Rightarrow> Some ''ROLLBACK''
           | TRANS_STMT_ROLLBACK_TO \<Rightarrow> Some ''ROLLBACK''
           | TRANS_STMT_SAVEPOINT \<Rightarrow> Some ''SAVEPOINT''
           | TRANS_STMT_RELEASE \<Rightarrow> Some ''RELEASE''
           | TRANS_STMT_PREPARE \<Rightarrow> Some ''PREPARE TRANSACTION''
           | TRANS_STMT_COMMIT_PREPARED \<Rightarrow> Some ''COMMIT PREPARED''
           | TRANS_STMT_ROLLBACK_PREPARED \<Rightarrow> Some ''ROLLBACK PREPARED''
           | TRANS_STMT_unknown \<Rightarrow> Some ''???'')
      | T_DeclareCursorStmt \<Rightarrow> Some ''DECLARE CURSOR''
      | T_ClosePortalStmt portalname \<Rightarrow>
          (if portalname = None then Some ''CLOSE CURSOR ALL'' else Some ''CLOSE CURSOR'')
      | T_FetchStmt ismove portalname \<Rightarrow> Some (if ismove then ''MOVE'' else ''FETCH'')
      | T_CreateDomainStmt \<Rightarrow> Some ''CREATE DOMAIN''
      | T_CreateSchemaStmt \<Rightarrow> Some ''CREATE SCHEMA''
      | T_CreateStmt stmts \<Rightarrow> Some ''CREATE TABLE''
      | T_CreateTableSpaceStmt \<Rightarrow> Some ''CREATE TABLESPACE''
      | T_DropTableSpaceStmt \<Rightarrow> Some ''DROP TABLESPACE''
      | T_AlterTableSpaceOptionsStmt \<Rightarrow> Some ''ALTER TABLESPACE''
      | T_CreateExtensionStmt \<Rightarrow> Some ''CREATE EXTENSION''
      | T_AlterExtensionStmt \<Rightarrow> Some ''ALTER EXTENSION''
      | T_AlterExtensionContentsStmt \<Rightarrow> Some ''ALTER EXTENSION''
      | T_CreateFdwStmt \<Rightarrow> Some ''CREATE FOREIGN DATA WRAPPER''
      | T_AlterFdwStmt \<Rightarrow> Some ''ALTER FOREIGN DATA WRAPPER''
      | T_DropFdwStmt \<Rightarrow> Some ''DROP FOREIGN DATA WRAPPER''
      | T_CreateForeignServerStmt \<Rightarrow> Some ''CREATE SERVER''
      | T_AlterForeignServerStmt \<Rightarrow> Some ''ALTER SERVER''
      | T_DropForeignServerStmt \<Rightarrow> Some ''DROP SERVER''
      | T_CreateUserMappingStmt \<Rightarrow> Some ''CREATE USER MAPPING''
      | T_AlterUserMappingStmt \<Rightarrow> Some ''ALTER USER MAPPING''
      | T_DropUserMappingStmt \<Rightarrow> Some ''DROP USER MAPPING''
      | T_CreateForeignTableStmt stmts \<Rightarrow> Some ''CREATE FOREIGN TABLE''
      | T_DropStmt removeType \<Rightarrow>
          (case removeType of
             OBJECT_TABLE \<Rightarrow> Some ''DROP TABLE''
           | OBJECT_SEQUENCE \<Rightarrow> Some ''DROP SEQUENCE''
           | OBJECT_VIEW \<Rightarrow> Some ''DROP VIEW''
           | OBJECT_INDEX \<Rightarrow> Some ''DROP INDEX''
           | OBJECT_TYPE \<Rightarrow> Some ''DROP TYPE''
           | OBJECT_DOMAIN \<Rightarrow> Some ''DROP DOMAIN''
           | OBJECT_COLLATION \<Rightarrow> Some ''DROP COLLATION''
           | OBJECT_CONVERSION \<Rightarrow> Some ''DROP CONVERSION''
           | OBJECT_SCHEMA \<Rightarrow> Some ''DROP SCHEMA''
           | OBJECT_TSPARSER \<Rightarrow> Some ''DROP TEXT SEARCH PARSER''
           | OBJECT_TSDICTIONARY \<Rightarrow> Some ''DROP TEXT SEARCH DICTIONARY''
           | OBJECT_TSTEMPLATE \<Rightarrow> Some ''DROP TEXT SEARCH TEMPLATE''
           | OBJECT_TSCONFIGURATION \<Rightarrow> Some ''DROP TEXT SEARCH CONFIGURATION''
           | OBJECT_FOREIGN_TABLE \<Rightarrow> Some ''DROP FOREIGN TABLE''
           | OBJECT_EXTENSION \<Rightarrow> Some ''DROP EXTENSION''
           | _ \<Rightarrow> Some ''???'')
      | T_TruncateStmt \<Rightarrow> Some ''TRUNCATE TABLE''
      | T_CommentStmt objtype \<Rightarrow> Some ''COMMENT''
      | T_SecLabelStmt \<Rightarrow> Some ''SECURITY LABEL''
      | T_CopyStmt \<Rightarrow> Some ''COPY''
      | T_RenameStmt renameType relation \<Rightarrow> Some (AlterObjectTypeCommandTag renameType)
      | T_AlterObjectSchemaStmt objectType relation \<Rightarrow> Some (AlterObjectTypeCommandTag objectType)
      | T_AlterOwnerStmt objectType \<Rightarrow> Some (AlterObjectTypeCommandTag objectType)
      | T_AlterTableStmt relkind relation stmts \<Rightarrow> Some (AlterObjectTypeCommandTag relkind)
      | T_AlterDomainStmt subtype \<Rightarrow> Some ''ALTER DOMAIN''
      | T_AlterFunctionStmt \<Rightarrow> Some ''ALTER FUNCTION''
      | T_GrantStmt is_grant objtype targtype objects \<Rightarrow>
          Some (if is_grant then ''GRANT'' else ''REVOKE'')
      | T_GrantRoleStmt is_grant \<Rightarrow> Some (if is_grant then ''GRANT ROLE'' else ''REVOKE ROLE'')
      | T_AlterDefaultPrivilegesStmt \<Rightarrow> Some ''ALTER DEFAULT PRIVILEGES''
      | T_DefineStmt kind args_nil \<Rightarrow>
          (case kind of
             OBJECT_AGGREGATE \<Rightarrow> Some ''CREATE AGGREGATE''
           | OBJECT_OPERATOR \<Rightarrow> Some ''CREATE OPERATOR''
           | OBJECT_TYPE \<Rightarrow> Some ''CREATE TYPE''
           | OBJECT_TSPARSER \<Rightarrow> Some ''CREATE TEXT SEARCH PARSER''
           | OBJECT_TSDICTIONARY \<Rightarrow> Some ''CREATE TEXT SEARCH DICTIONARY''
           | OBJECT_TSTEMPLATE \<Rightarrow> Some ''CREATE TEXT SEARCH TEMPLATE''
           | OBJECT_TSCONFIGURATION \<Rightarrow> Some ''CREATE TEXT SEARCH CONFIGURATION''
           | OBJECT_COLLATION \<Rightarrow> Some ''CREATE COLLATION''
           | _ \<Rightarrow> Some ''???'')
      | T_CompositeTypeStmt \<Rightarrow> Some ''CREATE TYPE''
      | T_CreateEnumStmt \<Rightarrow> Some ''CREATE TYPE''
      | T_AlterEnumStmt \<Rightarrow> Some ''ALTER TYPE''
      | T_ViewStmt \<Rightarrow> Some ''CREATE VIEW''
      | T_CreateFunctionStmt \<Rightarrow> Some ''CREATE FUNCTION''
      | T_IndexStmt concurrent isconstraint \<Rightarrow> Some ''CREATE INDEX''
      | T_RuleStmt relation \<Rightarrow> Some ''CREATE RULE''
      | T_CreateSeqStmt \<Rightarrow> Some ''CREATE SEQUENCE''
      | T_AlterSeqStmt \<Rightarrow> Some ''ALTER SEQUENCE''
      | T_RemoveFuncStmt kind \<Rightarrow>
          (case kind of
             OBJECT_FUNCTION \<Rightarrow> Some ''DROP FUNCTION''
           | OBJECT_AGGREGATE \<Rightarrow> Some ''DROP AGGREGATE''
           | OBJECT_OPERATOR \<Rightarrow> Some ''DROP OPERATOR''
           | _ \<Rightarrow> Some ''???'')
      | T_DoStmt \<Rightarrow> Some ''DO''
      | T_CreatedbStmt \<Rightarrow> Some ''CREATE DATABASE''
      | T_AlterDatabaseStmt \<Rightarrow> Some ''ALTER DATABASE''
      | T_AlterDatabaseSetStmt \<Rightarrow> Some ''ALTER DATABASE''
      | T_DropdbStmt dbname \<Rightarrow> Some ''DROP DATABASE''
      | T_NotifyStmt \<Rightarrow> Some ''NOTIFY''
      | T_ListenStmt \<Rightarrow> Some ''LISTEN''
      | T_UnlistenStmt has_conditionname \<Rightarrow> Some ''UNLISTEN''
      | T_LoadStmt \<Rightarrow> Some ''LOAD''
      | T_ClusterStmt \<Rightarrow> Some ''CLUSTER''
      | T_VacuumStmt vacopt_vacuum \<Rightarrow> Some (if vacopt_vacuum then ''VACUUM'' else ''ANALYZE'')
      | T_ExplainStmt \<Rightarrow> Some ''EXPLAIN''
      | T_VariableSetStmt kind is_local \<Rightarrow>
          (case kind of
             VAR_SET_VALUE \<Rightarrow> Some ''SET''
           | VAR_SET_CURRENT \<Rightarrow> Some ''SET''
           | VAR_SET_DEFAULT \<Rightarrow> Some ''SET''
           | VAR_SET_MULTI \<Rightarrow> Some ''SET''
           | VAR_RESET \<Rightarrow> Some ''RESET''
           | VAR_RESET_ALL \<Rightarrow> Some ''RESET''
           | VAR_unknown \<Rightarrow> Some ''???'')
      | T_VariableShowStmt name \<Rightarrow> Some ''SHOW''
      | T_DiscardStmt target \<Rightarrow>
          (case target of
             DISCARD_ALL \<Rightarrow> Some ''DISCARD ALL''
           | DISCARD_PLANS \<Rightarrow> Some ''DISCARD PLANS''
           | DISCARD_TEMP \<Rightarrow> Some ''DISCARD TEMP''
           | DISCARD_unknown \<Rightarrow> Some ''???'')
      | T_CreateTrigStmt \<Rightarrow> Some ''CREATE TRIGGER''
      | T_DropPropertyStmt removeType relation \<Rightarrow>
          (case removeType of
             OBJECT_TRIGGER \<Rightarrow> Some ''DROP TRIGGER''
           | OBJECT_RULE \<Rightarrow> Some ''DROP RULE''
           | _ \<Rightarrow> Some ''???'')
      | T_CreatePLangStmt \<Rightarrow> Some ''CREATE LANGUAGE''
      | T_DropPLangStmt \<Rightarrow> Some ''DROP LANGUAGE''
      | T_CreateRoleStmt \<Rightarrow> Some ''CREATE ROLE''
      | T_AlterRoleStmt \<Rightarrow> Some ''ALTER ROLE''
      | T_AlterRoleSetStmt \<Rightarrow> Some ''ALTER ROLE''
      | T_DropRoleStmt \<Rightarrow> Some ''DROP ROLE''
      | T_DropOwnedStmt \<Rightarrow> Some ''DROP OWNED''
      | T_ReassignOwnedStmt \<Rightarrow> Some ''REASSIGN OWNED''
      | T_LockStmt \<Rightarrow> Some ''LOCK TABLE''
      | T_ConstraintsSetStmt \<Rightarrow> Some ''SET CONSTRAINTS''
      | T_CheckPointStmt \<Rightarrow> Some ''CHECKPOINT''
      | T_BarrierStmt barrier_id \<Rightarrow> Some (if pgxc then ''BARRIER'' else ''???'')
      | T_ReindexStmt kind \<Rightarrow> Some ''REINDEX''
      | T_CreateConversionStmt \<Rightarrow> Some ''CREATE CONVERSION''
      | T_CreateCastStmt \<Rightarrow> Some ''CREATE CAST''
      | T_DropCastStmt \<Rightarrow> Some ''DROP CAST''
      | T_CreateOpClassStmt \<Rightarrow> Some ''CREATE OPERATOR CLASS''
      | T_CreateOpFamilyStmt \<Rightarrow> Some ''CREATE OPERATOR FAMILY''
      | T_AlterOpFamilyStmt \<Rightarrow> Some ''ALTER OPERATOR FAMILY''
      | T_RemoveOpClassStmt \<Rightarrow> Some ''DROP OPERATOR CLASS''
      | T_RemoveOpFamilyStmt \<Rightarrow> Some ''DROP OPERATOR FAMILY''
      | T_AlterTSDictionaryStmt \<Rightarrow> Some ''ALTER TEXT SEARCH DICTIONARY''
      | T_AlterTSConfigurationStmt \<Rightarrow> Some ''ALTER TEXT SEARCH CONFIGURATION''
      | T_PrepareStmt \<Rightarrow> Some ''PREPARE''
      | T_ExecuteStmt into name \<Rightarrow> Some ''EXECUTE''
      | T_DeallocateStmt name \<Rightarrow>
          (if name = None then Some ''DEALLOCATE ALL'' else Some ''DEALLOCATE'')
      | T_PlannedStmt commandType utilityStmt intoClause rowMarks hasModifyingCTE \<Rightarrow>
          (case commandType of
             CMD_SELECT \<Rightarrow>
               (if utilityStmt \<noteq> None then
                  (if utilityStmt = Some T_DeclareCursorStmt then Some ''DECLARE CURSOR'' else None)
                else if intoClause then Some ''SELECT INTO''
                else if rowMarks \<noteq> [] then
                  (if hd rowMarks = ROW_MARK_EXCLUSIVE then Some ''SELECT FOR UPDATE''
                   else Some ''SELECT FOR SHARE'')
                else Some ''SELECT'')
           | CMD_UPDATE \<Rightarrow> Some ''UPDATE''
           | CMD_INSERT \<Rightarrow> Some ''INSERT''
           | CMD_DELETE \<Rightarrow> Some ''DELETE''
           | _ \<Rightarrow> Some ''???'')
      | T_Query commandType utilityStmt intoClause rowMarks \<Rightarrow>
          (case commandType of
             CMD_SELECT \<Rightarrow>
               (if utilityStmt \<noteq> None then
                  (if utilityStmt = Some T_DeclareCursorStmt then Some ''DECLARE CURSOR'' else None)
                else if intoClause then Some ''SELECT INTO''
                else if rowMarks \<noteq> [] then
                  (if hd rowMarks then Some ''SELECT FOR UPDATE'' else Some ''SELECT FOR SHARE'')
                else Some ''SELECT'')
           | CMD_UPDATE \<Rightarrow> Some ''UPDATE''
           | CMD_INSERT \<Rightarrow> Some ''INSERT''
           | CMD_DELETE \<Rightarrow> Some ''DELETE''
           | CMD_UTILITY \<Rightarrow>
               (case utilityStmt of None \<Rightarrow> None | Some stmt \<Rightarrow> CreateCommandTag pgxc stmt)
           | _ \<Rightarrow> Some ''???'')
      | T_ExecDirectStmt \<Rightarrow> Some ''EXECUTE DIRECT''
      | T_CleanConnStmt \<Rightarrow> Some ''CLEAN CONNECTION''
      | T_RemoteQuery step \<Rightarrow> Some ''???''
      | T_OtherNode tag \<Rightarrow> Some ''???'')"

subsection \<open>Guard checks\<close>

definition PreventCommandIfReadOnly :: "string \<Rightarrow> env \<Rightarrow> proc" where
  "PreventCommandIfReadOnly cmdname env =
     cond (XactReadOnly env)
       (ereport_ERROR ERRCODE_READ_ONLY_SQL_TRANSACTION
          (''cannot execute '' @ cmdname @ '' in a read-only transaction'') [])"

definition PreventCommandDuringRecovery :: "string \<Rightarrow> env \<Rightarrow> proc" where
  "PreventCommandDuringRecovery cmdname env =
     cond (RecoveryInProgress env)
       (ereport_ERROR ERRCODE_READ_ONLY_SQL_TRANSACTION
          (''cannot execute '' @ cmdname @ '' during recovery'') [])"

definition CheckRestrictedOperation :: "string \<Rightarrow> env \<Rightarrow> proc" where
  "CheckRestrictedOperation cmdname env =
     cond (InSecurityRestrictedOperation env)
       (ereport_ERROR ERRCODE_INSUFFICIENT_PRIVILEGE
          (''cannot execute '' @ cmdname @ '' within security-restricted operation'') [])"

text \<open>
  The case labels of the switch in \<^verbatim>\<open>check_xact_readonly\<close>, in the order of the
  source: the node tags whose commands a read-only transaction refuses.
\<close>

definition readonly_denied :: "Node \<Rightarrow> bool" where
  "readonly_denied parsetree =
     (case parsetree of
        T_AlterDatabaseStmt \<Rightarrow> True
      | T_AlterDatabaseSetStmt \<Rightarrow> True
      | T_AlterDomainStmt subtype \<Rightarrow> True
      | T_AlterFunctionStmt \<Rightarrow> True
      | T_AlterRoleStmt \<Rightarrow> True
      | T_AlterRoleSetStmt \<Rightarrow> True
      | T_AlterObjectSchemaStmt objectType relation \<Rightarrow> True
      | T_AlterOwnerStmt objectType \<Rightarrow> True
      | T_AlterSeqStmt \<Rightarrow> True
      | T_AlterTableStmt relkind relation stmts \<Rightarrow> True
      | T_RenameStmt renameType relation \<Rightarrow> True
      | T_CommentStmt objtype \<Rightarrow> True
      | T_DefineStmt kind args_nil \<Rightarrow> True
      | T_CreateCastStmt \<Rightarrow> True
      | T_CreateConversionStmt \<Rightarrow> True
      | T_CreatedbStmt \<Rightarrow> True
      | T_CreateDomainStmt \<Rightarrow> True
      | T_CreateFunctionStmt \<Rightarrow> True
      | T_CreateRoleStmt \<Rightarrow> True
      | T_IndexStmt concurrent isconstraint \<Rightarrow> True
      | T_CreatePLangStmt \<Rightarrow> True
      | T_CreateOpClassStmt \<Rightarrow> True
      | T_CreateOpFamilyStmt \<Rightarrow> True
      | T_AlterOpFamilyStmt \<Rightarrow> True
      | T_RuleStmt relation \<Rightarrow> True
      | T_CreateSchemaStmt \<Rightarrow> True
      | T_CreateSeqStmt \<Rightarrow> True
      | T_CreateStmt stmts \<Rightarrow> True
      | T_CreateTableSpaceStmt \<Rightarrow> True
      | T_CreateTrigStmt \<Rightarrow> True
      | T_CompositeTypeStmt \<Rightarrow> True
      | T_CreateEnumStmt \<Rightarrow> True
      | T_AlterEnumStmt \<Rightarrow> True
      | T_ViewStmt \<Rightarrow> True
      | T_DropCastStmt \<Rightarrow> True
      | T_DropStmt removeType \<Rightarrow> True
      | T_DropdbStmt dbname \<Rightarrow> True
      | T_DropTableSpaceStmt \<Rightarrow> True
      | T_RemoveFuncStmt kind \<Rightarrow> True
      | T_DropRoleStmt \<Rightarrow> True
      | T_DropPLangStmt \<Rightarrow> True
      | T_RemoveOpClassStmt \<Rightarrow> True
      | T_RemoveOpFamilyStmt \<Rightarrow> True
      | T_DropPropertyStmt removeType relation \<Rightarrow> True
      | T_GrantStmt is_grant objtype targtype objects \<Rightarrow> True
      | T_GrantRoleStmt is_grant \<Rightarrow> True
      | T_AlterDefaultPrivilegesStmt \<Rightarrow> True
      | T_TruncateStmt \<Rightarrow> True
      | T_DropOwnedStmt \<Rightarrow> True
      | T_ReassignOwnedStmt \<Rightarrow> True
      | T_AlterTSDictionaryStmt \<Rightarrow> True
      | T_AlterTSConfigurationStmt \<Rightarrow> True
      | T_CreateExtensionStmt \<Rightarrow> True
      | T_AlterExtensionStmt \<Rightarrow> True
      | T_AlterExtensionContentsStmt \<Rightarrow> True
      | T_CreateFdwStmt \<Rightarrow> True
      | T_AlterFdwStmt \<Rightarrow> True
      | T_DropFdwStmt \<Rightarrow> True
      | T_CreateForeignServerStmt \<Rightarrow> True
      | T_AlterForeignServerStmt \<Rightarrow> True
      | T_DropForeignServerStmt \<Rightarrow> True
      | T_CreateUserMappingStmt \<Rightarrow> True
      | T_AlterUserMappingStmt \<Rightarrow> True
      | T_DropUserMappingStmt \<Rightarrow> True
      | T_AlterTableSpaceOptionsStmt \<Rightarrow> True
      | T_CreateForeignTableStmt stmts \<Rightarrow> True
      | T_SecLabelStmt \<Rightarrow> True
      | _ \<Rightarrow> False)"

text \<open>
  \<^verbatim>\<open>check_xact_readonly\<close>: nothing outside a read-only transaction; inside one,
  the commands of the list are refused by \<^verbatim>\<open>PreventCommandIfReadOnly\<close> under their
  command tag.  (\<open>CreateCommandTag\<close> returns a tag for every node of the list; the
  \<open>None\<close> branch is there for the type.)
\<close>

definition check_xact_readonly :: "Node \<Rightarrow> env \<Rightarrow> proc" where
  "check_xact_readonly parsetree env =
     (if \<not> XactReadOnly env then skip
      else if readonly_denied parsetree then
        (case CreateCommandTag (PGXC env) parsetree of
           Some tag \<Rightarrow> PreventCommandIfReadOnly tag env
         | None \<Rightarrow> throw Assert_failure)
      else skip)"

subsection \<open>The transaction manager's interface\<close>

text \<open>
  Modelled from the spec: \<^verbatim>\<open>IsTransactionBlock\<close>, \<^verbatim>\<open>RequireTransactionChain\<close>
  and \<^verbatim>\<open>PreventTransactionChain\<close> (access/xact.c) are not in the file.  The spec:
  some commands "require an explicit open transaction block", others "forbid being
  inside one"; the session states are Idle, InBlock and PreparedPendingRemote.  The
  spec gives the \<^verbatim>\<open>isTopLevel\<close> argument no part in the guards.
\<close>

definition IsTransactionBlock :: "state \<Rightarrow> bool" where
  "IsTransactionBlock st = (blockState st = InBlock)"

definition RequireTransactionChain :: "bool \<Rightarrow> string \<Rightarrow> proc" where
  "RequireTransactionChain isTopLevel stmtType st =
     (if IsTransactionBlock st then (None, st)
      else (Some (requires_transaction_block stmtType), st))"

definition PreventTransactionChain :: "bool \<Rightarrow> string \<Rightarrow> proc" where
  "PreventTransactionChain isTopLevel stmtType st =
     (if IsTransactionBlock st then (Some (forbidden_in_transaction_block stmtType), st)
      else (None, st))"

text \<open>
  Modelled from the spec: the transaction-boundary operations of access/xact.c and
  access/twophase.c are not in the file.  The spec: BEGIN takes the session from Idle to
  InBlock; COMMIT and ROLLBACK take it to Idle; PREPARE TRANSACTION leaves a two-phase
  handle that a later COMMIT PREPARED or ROLLBACK PREPARED resolves; the savepoint
  operations "manipulate a nested savepoint stack (external collaborator)".  Each
  operation is also an entry of the trace.  What \<^verbatim>\<open>EndTransactionBlock\<close> and
  \<^verbatim>\<open>PrepareTransactionBlock\<close> return is a field of \<open>env\<close>.
\<close>

definition BeginTransactionBlock :: proc where
  "BeginTransactionBlock st =
     (None, st\<lparr>blockState := InBlock, trace := trace st @ [Called ''BeginTransactionBlock'' []]\<rparr>)"

definition EndTransactionBlock :: "string list \<Rightarrow> proc" where
  "EndTransactionBlock args st =
     (None, st\<lparr>blockState := Idle, trace := trace st @ [Called ''EndTransactionBlock'' args]\<rparr>)"

definition UserAbortTransactionBlock :: proc where
  "UserAbortTransactionBlock st =
     (None, st\<lparr>blockState := Idle, trace := trace st @ [Called ''UserAbortTransactionBlock'' []]\<rparr>)"

definition PrepareTransactionBlock :: "string \<Rightarrow> proc" where
  "PrepareTransactionBlock gid st =
     (None, st\<lparr>blockState := PreparedPendingRemote,
                trace := trace st @ [Called ''PrepareTransactionBlock'' [gid]]\<rparr>)"

definition FinishPreparedTransaction :: "string \<Rightarrow> bool \<Rightarrow> proc" where
  "FinishPreparedTransaction gid isCommit st =
     (None, st\<lparr>blockState := Idle,
                trace := trace st @
                  [Called ''FinishPreparedTransaction'' [gid, if isCommit then ''true'' else ''false'']]\<rparr>)"

definition DefineSavepoint :: "string \<Rightarrow> proc" where
  "DefineSavepoint name = call ''DefineSavepoint'' [name]"

definition ReleaseSavepoint :: "DefElem list \<Rightarrow> proc" where
  "ReleaseSavepoint options = call ''ReleaseSavepoint'' (map snd options)"

definition RollbackToSavepoint :: "DefElem list \<Rightarrow> proc" where
  "RollbackToSavepoint options = call ''RollbackToSavepoint'' (map snd options)"

subsection \<open>The distributed execution router\<close>

definition ExecUtilityStmtOnNodes ::
  "string \<Rightarrow> nat list option \<Rightarrow> bool \<Rightarrow> RemoteQueryExecType \<Rightarrow> env \<Rightarrow> proc" where
  "ExecUtilityStmtOnNodes queryString nodes force_autocommit' exec_type' env =
     cond (\<not> IsConnFromCoord env)
       (ExecRemoteUtility
          \<lparr>combine_type = COMBINE_TYPE_SAME, exec_nodes = nodes, sql_statement = queryString,
           force_autocommit = force_autocommit', exec_type = exec_type'\<rparr>)"

text \<open>
  Modelled from the spec: \<^verbatim>\<open>AddRemoteQueryNode\<close> (pgxc planner) is not in the file.
  The source calls it to "add a RemoteQuery node for a query at top level on a remote
  Coordinator"; the spec: "only the outermost call propagates to remote nodes", and the
  router hands on "the verbatim statement text" with the "same across all nodes" policy.
  The node is appended on a coordinator that did not get the statement from another
  coordinator.
\<close>

definition AddRemoteQueryNode ::
  "Node list \<Rightarrow> string \<Rightarrow> RemoteQueryExecType \<Rightarrow> env \<Rightarrow> Node list" where
  "AddRemoteQueryNode stmts queryString remoteExecType env =
     (if IS_PGXC_COORDINATOR env \<and> \<not> IsConnFromCoord env then
        stmts @ [T_RemoteQuery
          \<lparr>combine_type = COMBINE_TYPE_SAME, exec_nodes = None, sql_statement = queryString,
           force_autocommit = False, exec_type = remoteExecType\<rparr>]
      else stmts)"

subsection \<open>The statement dispatcher\<close>

text \<open>
  \<^verbatim>\<open>if (completionTag) strcpy(completionTag, "ROLLBACK")\<close>: the report of an
  unsuccessful commit.
\<close>

definition report_ROLLBACK :: "addr option \<Rightarrow> proc" where
  "report_ROLLBACK completionTag =
     (case completionTag of None \<Rightarrow> skip | Some p \<Rightarrow> strcpy p ''ROLLBACK'')"

text \<open>
  The loop over \<^verbatim>\<open>stmt->options\<close> of SAVEPOINT: the value of the last element named
  \<^verbatim>\<open>savepoint_name\<close>, \<^verbatim>\<open>NULL\<close> when there is none.
\<close>

definition savepoint_name :: "DefElem list \<Rightarrow> string option" where
  "savepoint_name options =
     foldl (\<lambda>name elem. if fst elem = ''savepoint_name'' then Some (snd elem) else name)
       None options"

text \<open>The branch \<^verbatim>\<open>case T_TransactionStmt\<close>: the switch on \<^verbatim>\<open>stmt->kind\<close>.\<close>

definition TransactionStmt_switch ::
  "TransactionStmtKind \<Rightarrow> DefElem list \<Rightarrow> string \<Rightarrow> bool \<Rightarrow> addr option \<Rightarrow> env \<Rightarrow> proc" where
  "TransactionStmt_switch kind options gid isTopLevel completionTag env =
     (let begin_block =
        block
          [ifdef_PGXC env
             (cond (IS_PGXC_COORDINATOR env \<and> \<not> IsConnFromCoord env) (call ''PGXCNodeBegin'' [])),
           BeginTransactionBlock,
           block (map (\<lambda>item.
              if fst item = ''transaction_isolation'' then
                call ''SetPGVariable'' [''transaction_isolation'', snd item]
              else if fst item = ''transaction_read_only'' then
                call ''SetPGVariable'' [''transaction_read_only'', snd item]
              else if fst item = ''transaction_deferrable'' then
                call ''SetPGVariable'' [''transaction_deferrable'', snd item]
              else skip) options),
           ifdef_PGXC env
             (cond (IS_PGXC_COORDINATOR env \<and> \<not> IsConnFromCoord env)
                (block
                   [block (map (\<lambda>item.
                      if fst item = ''transaction_isolation'' then
                        call ''RewriteBeginQuery'' [''transaction_isolation'', snd item]
                      else if fst item = ''transaction_read_only'' then
                        call ''RewriteBeginQuery'' [''transaction_read_only'', snd item]
                      else skip) options),
                    call ''PGXCNodeSetBeginQuery'' []]))]
      in
      case kind of
        TRANS_STMT_BEGIN \<Rightarrow> begin_block
      | TRANS_STMT_START \<Rightarrow> begin_block
      | TRANS_STMT_COMMIT \<Rightarrow>
          block
            [EndTransactionBlock (if PGXC env then [''true''] else []),
             cond (\<not> EndTransactionBlock_result env) (report_ROLLBACK completionTag)]
      | TRANS_STMT_PREPARE \<Rightarrow>
          block
            [PreventCommandDuringRecovery ''PREPARE TRANSACTION'' env,
             (if PGXC env then
                (let operation_local = False;
                     operation_local =
                       (if IS_PGXC_COORDINATOR env \<and> \<not> IsConnFromCoord env
                        then PGXCNodePrepare_result env else operation_local);
                     operation_local = (if IsConnFromCoord env then True else operation_local)
                 in
                 block
                   [cond (IS_PGXC_COORDINATOR env \<and> \<not> IsConnFromCoord env)
                      (call ''PGXCNodePrepare'' [gid]),
                    (if operation_local then
                       block
                         [PrepareTransactionBlock gid,
                          cond (\<not> PrepareTransactionBlock_result env) (report_ROLLBACK completionTag)]
                     else
                       block
                         [EndTransactionBlock [''false''],
                          cond (\<not> EndTransactionBlock_result env) (report_ROLLBACK completionTag)])])
              else
                block
                  [PrepareTransactionBlock gid,
                   cond (\<not> PrepareTransactionBlock_result env) (report_ROLLBACK completionTag)])]
      | TRANS_STMT_COMMIT_PREPARED \<Rightarrow>
          block
            [PreventTransactionChain isTopLevel ''COMMIT PREPARED'',
             PreventCommandDuringRecovery ''COMMIT PREPARED'' env,
             (if PGXC env then
                (if IS_PGXC_COORDINATOR env \<and> \<not> IsConnFromCoord env then
                   call ''PGXCNodeCommitPrepared'' [gid]
                 else if IsConnFromCoord env then FinishPreparedTransaction gid True
                 else skip)
              else FinishPreparedTransaction gid True)]
      | TRANS_STMT_ROLLBACK_PREPARED \<Rightarrow>
          block
            [PreventTransactionChain isTopLevel ''ROLLBACK PREPARED'',
             PreventCommandDuringRecovery ''ROLLBACK PREPARED'' env,
             (if PGXC env then
                (let operation_local =
                       (if IS_PGXC_COORDINATOR env \<and> \<not> IsConnFromCoord env
                        then PGXCNodeRollbackPrepared_result env else False)
                 in
                 block
                   [cond (IS_PGXC_COORDINATOR env \<and> \<not> IsConnFromCoord env)
                      (call ''PGXCNodeRollbackPrepared'' [gid]),
                    cond (operation_local \<or> IsConnFromCoord env)
                      (FinishPreparedTransaction gid False)])
              else FinishPreparedTransaction gid False)]
      | TRANS_STMT_ROLLBACK \<Rightarrow> UserAbortTransactionBlock
      | TRANS_STMT_SAVEPOINT \<Rightarrow>
          block
            [ifdef_PGXC env
               (ereport_ERROR ERRCODE_STATEMENT_TOO_COMPLEX ''SAVEPOINT is not yet supported.'' []),
             RequireTransactionChain isTopLevel ''SAVEPOINT'',
             (case savepoint_name options of
                None \<Rightarrow> Assert False
              | Some name \<Rightarrow> DefineSavepoint name)]
      | TRANS_STMT_RELEASE \<Rightarrow>
          block
            [RequireTransactionChain isTopLevel ''RELEASE SAVEPOINT'',
             ReleaseSavepoint options]
      | TRANS_STMT_ROLLBACK_TO \<Rightarrow>
          block
            [RequireTransactionChain isTopLevel ''ROLLBACK TO SAVEPOINT'',
             RollbackToSavepoint options]
      | TRANS_STMT_unknown \<Rightarrow> skip)"

text \<open>
  The loop over \<^verbatim>\<open>stmt->objects\<close> in the branch \<^verbatim>\<open>case T_GrantStmt\<close>: the node
  set of the objects, or the error when two objects disagree.
\<close>

fun GrantStmt_objects ::
  "env \<Rightarrow> string list \<Rightarrow> bool \<Rightarrow> RemoteQueryExecType \<Rightarrow> RemoteQueryExecType \<Rightarrow>
   error + RemoteQueryExecType" where
  "GrantStmt_objects env [] first type_local remoteExecType = Inr remoteExecType"
| "GrantStmt_objects env (relvar # cells) first type_local remoteExecType =
     (let remoteExecType =
            (if get_rel_relkind env relvar = RELKIND_SEQUENCE \<or>
                get_rel_relkind env relvar = RELKIND_VIEW
             then EXEC_ON_COORDS else EXEC_ON_ALL_NODES)
      in
      if first then GrantStmt_objects env cells False remoteExecType remoteExecType
      else if type_local \<noteq> remoteExecType then
        Inl (ereport_error ERRCODE_FEATURE_NOT_SUPPORTED
               ''PGXC does not support GRANT on multiple object types''
               ''Grant VIEW/SEQUENCE and relations on separate queries'')
      else GrantStmt_objects env cells False type_local remoteExecType)"

text \<open>
  The node set that RENAME, ALTER ... SET SCHEMA and ALTER TABLE choose from the object
  type and, for a table, from the kind of the relation.
\<close>

definition relation_remoteExecType :: "ObjectType \<Rightarrow> string \<Rightarrow> env \<Rightarrow> RemoteQueryExecType" where
  "relation_remoteExecType objtype relation env =
     (if objtype = OBJECT_SEQUENCE \<or> objtype = OBJECT_VIEW then EXEC_ON_COORDS
      else if objtype = OBJECT_TABLE then
        (if get_rel_relkind env relation = RELKIND_SEQUENCE then EXEC_ON_COORDS
         else EXEC_ON_ALL_NODES)
      else EXEC_ON_ALL_NODES)"

definition not_supported :: "string \<Rightarrow> proc" where
  "not_supported m =
     ereport_ERROR ERRCODE_FEATURE_NOT_SUPPORTED m ''The feature is not currently supported''"

text \<open>
  The switch on \<^verbatim>\<open>nodeTag(parsetree)\<close> in \<^verbatim>\<open>standard_ProcessUtility\<close>, branch
  by branch in the order of the source.  The three branches that hand generated
  sub-statements back to the dispatcher (\<^verbatim>\<open>T_CreateStmt\<close>,
  \<^verbatim>\<open>T_CreateForeignTableStmt\<close>, \<^verbatim>\<open>T_AlterTableStmt\<close>) are part of the recursive
  definition of \<open>standard_ProcessUtility\<close> below and are not entered here.
\<close>

definition standard_ProcessUtility_switch ::
  "Node \<Rightarrow> string \<Rightarrow> bool \<Rightarrow> addr option \<Rightarrow> env \<Rightarrow> proc" where
  "standard_ProcessUtility_switch parsetree queryString isTopLevel completionTag env =
     (let coord = IS_PGXC_COORDINATOR env;
          origin = (IS_PGXC_COORDINATOR env \<and> \<not> IsConnFromCoord env);
          on_all_nodes =
            ifdef_PGXC env
              (cond coord (ExecUtilityStmtOnNodes queryString None False EXEC_ON_ALL_NODES env));
          on_coords =
            ifdef_PGXC env
              (cond coord (ExecUtilityStmtOnNodes queryString None False EXEC_ON_COORDS env));
          unrecognized = elog_ERROR ''unrecognized node type''
      in
      case parsetree of
        T_TransactionStmt kind options gid \<Rightarrow>
          TransactionStmt_switch kind options gid isTopLevel completionTag env
      | T_PlannedStmt commandType utilityStmt intoClause rowMarks hasModifyingCTE \<Rightarrow>
          block
            [cond (utilityStmt = None \<or> utilityStmt \<noteq> Some T_DeclareCursorStmt)
               (elog_ERROR ''non-DECLARE CURSOR PlannedStmt passed to ProcessUtility''),
             call ''PerformCursorOpen'' []]
      | T_ClosePortalStmt portalname \<Rightarrow>
          block [CheckRestrictedOperation ''CLOSE'' env, call ''PerformPortalClose'' []]
      | T_FetchStmt ismove portalname \<Rightarrow>
          call_with_completionTag ''PerformPortalFetch'' [] completionTag env
      | T_CreateSchemaStmt \<Rightarrow> call ''CreateSchemaCommand'' []
      | T_CreateStmt stmts \<Rightarrow> skip
      | T_CreateForeignTableStmt stmts \<Rightarrow> skip
      | T_CreateTableSpaceStmt \<Rightarrow>
          block
            [ifdef_PGXC env (not_supported ''Postgres-XC does not support TABLESPACE yet''),
             PreventTransactionChain isTopLevel ''CREATE TABLESPACE'',
             call ''CreateTableSpace'' []]
      | T_DropTableSpaceStmt \<Rightarrow>
          block [PreventTransactionChain isTopLevel ''DROP TABLESPACE'', call ''DropTableSpace'' []]
      | T_AlterTableSpaceOptionsStmt \<Rightarrow> call ''AlterTableSpaceOptions'' []
      | T_CreateExtensionStmt \<Rightarrow> call ''CreateExtension'' []
      | T_AlterExtensionStmt \<Rightarrow> call ''ExecAlterExtensionStmt'' []
      | T_AlterExtensionContentsStmt \<Rightarrow> call ''ExecAlterExtensionContentsStmt'' []
      | T_CreateFdwStmt \<Rightarrow> call ''CreateForeignDataWrapper'' []
      | T_AlterFdwStmt \<Rightarrow> call ''AlterForeignDataWrapper'' []
      | T_DropFdwStmt \<Rightarrow> call ''RemoveForeignDataWrapper'' []
      | T_CreateForeignServerStmt \<Rightarrow> call ''CreateForeignServer'' []
      | T_AlterForeignServerStmt \<Rightarrow> call ''AlterForeignServer'' []
      | T_DropForeignServerStmt \<Rightarrow> call ''RemoveForeignServer'' []
      | T_CreateUserMappingStmt \<Rightarrow> call ''CreateUserMapping'' []
      | T_AlterUserMappingStmt \<Rightarrow> call ''AlterUserMapping'' []
      | T_DropUserMappingStmt \<Rightarrow> call ''RemoveUserMapping'' []
      | T_DropStmt removeType \<Rightarrow>
          block
            [(case removeType of
                OBJECT_TABLE \<Rightarrow> call ''RemoveRelations'' []
              | OBJECT_SEQUENCE \<Rightarrow> call ''RemoveRelations'' []
              | OBJECT_VIEW \<Rightarrow> call ''RemoveRelations'' []
              | OBJECT_INDEX \<Rightarrow> call ''RemoveRelations'' []
              | OBJECT_FOREIGN_TABLE \<Rightarrow> call ''RemoveRelations'' []
              | OBJECT_TYPE \<Rightarrow> call ''RemoveTypes'' []
              | OBJECT_DOMAIN \<Rightarrow> call ''RemoveTypes'' []
              | OBJECT_COLLATION \<Rightarrow> call ''DropCollationsCommand'' []
              | OBJECT_CONVERSION \<Rightarrow> call ''DropConversionsCommand'' []
              | OBJECT_SCHEMA \<Rightarrow> call ''RemoveSchemas'' []
              | OBJECT_TSPARSER \<Rightarrow> call ''RemoveTSParsers'' []
              | OBJECT_TSDICTIONARY \<Rightarrow> call ''RemoveTSDictionaries'' []
              | OBJECT_TSTEMPLATE \<Rightarrow> call ''RemoveTSTemplates'' []
              | OBJECT_TSCONFIGURATION \<Rightarrow> call ''RemoveTSConfigurations'' []
              | OBJECT_EXTENSION \<Rightarrow> call ''RemoveExtensions'' []
              | _ \<Rightarrow> elog_ERROR ''unrecognized drop object type''),
             ifdef_PGXC env
               (cond origin
                  (if removeType = OBJECT_SEQUENCE \<or> removeType = OBJECT_VIEW then
                     ExecUtilityStmtOnNodes queryString None False EXEC_ON_COORDS env
                   else ExecUtilityStmtOnNodes queryString None False EXEC_ON_ALL_NODES env))]
      | T_TruncateStmt \<Rightarrow> block [call ''ExecuteTruncate'' [], on_all_nodes]
      | T_CommentStmt objtype \<Rightarrow>
          block
            [call ''CommentObject'' [],
             ifdef_PGXC env
               (cond origin
                  (if objtype = OBJECT_SEQUENCE \<or> objtype = OBJECT_VIEW then
                     ExecUtilityStmtOnNodes queryString None False EXEC_ON_COORDS env
                   else if objtype = OBJECT_RULE then
                     not_supported ''Postgres-XC does not support COMMENT on RULE yet''
                   else ExecUtilityStmtOnNodes queryString None False EXEC_ON_ALL_NODES env))]
      | T_SecLabelStmt \<Rightarrow> call ''ExecSecLabelStmt'' []
      | T_CopyStmt \<Rightarrow>
          block
            [call ''DoCopy'' [],
             (case completionTag of
                None \<Rightarrow> skip
              | Some p \<Rightarrow>
                  snprintf p (COMPLETION_TAG_BUFSIZE env)
                    (''COPY '' @ string_of_nat (unat (DoCopy_result env))))]
      | T_PrepareStmt \<Rightarrow>
          block
            [ifdef_PGXC env (not_supported ''Postgres-XC does not support PREPARE yet''),
             CheckRestrictedOperation ''PREPARE'' env,
             call ''PrepareQuery'' []]
      | T_ExecuteStmt into name \<Rightarrow>
          block
            [ifdef_PGXC env (not_supported ''Postgres-XC does not support EXECUTE yet''),
             call_with_completionTag ''ExecuteQuery'' [] completionTag env]
      | T_DeallocateStmt name \<Rightarrow>
          block [CheckRestrictedOperation ''DEALLOCATE'' env, call ''DeallocateQuery'' []]
      | T_RenameStmt renameType relation \<Rightarrow>
          block
            [ifdef_PGXC env
               (cond origin
                  (ExecUtilityStmtOnNodes queryString None False
                     (relation_remoteExecType renameType relation env) env)),
             call ''ExecRenameStmt'' []]
      | T_AlterObjectSchemaStmt objectType relation \<Rightarrow>
          block
            [ifdef_PGXC env
               (cond origin
                  (ExecUtilityStmtOnNodes queryString None False
                     (relation_remoteExecType objectType relation env) env)),
             call ''ExecAlterObjectSchemaStmt'' []]
      | T_AlterOwnerStmt objectType \<Rightarrow> block [call ''ExecAlterOwnerStmt'' [], on_all_nodes]
      | T_AlterTableStmt relkind relation stmts \<Rightarrow> skip
      | T_AlterDomainStmt subtype \<Rightarrow>
          block
            [(if subtype = CHR ''T'' then call ''AlterDomainDefault'' []
              else if subtype = CHR ''N'' then call ''AlterDomainNotNull'' [''false'']
              else if subtype = CHR ''O'' then call ''AlterDomainNotNull'' [''true'']
              else if subtype = CHR ''C'' then call ''AlterDomainAddConstraint'' []
              else if subtype = CHR ''X'' then call ''AlterDomainDropConstraint'' []
              else elog_ERROR ''unrecognized alter domain type''),
             on_all_nodes]
      | T_GrantStmt is_grant objtype targtype objects \<Rightarrow>
          block
            [ifdef_PGXC env
               (cond origin
                  (if objtype = ACL_OBJECT_SEQUENCE then
                     ExecUtilityStmtOnNodes queryString None False EXEC_ON_COORDS env
                   else if objtype = ACL_OBJECT_RELATION \<and> targtype = ACL_TARGET_OBJECT then
                     (case GrantStmt_objects env objects True EXEC_ON_ALL_NODES EXEC_ON_ALL_NODES of
                        Inl e \<Rightarrow> throw e
                      | Inr remoteExecType \<Rightarrow>
                          ExecUtilityStmtOnNodes queryString None False remoteExecType env)
                   else ExecUtilityStmtOnNodes queryString None False EXEC_ON_ALL_NODES env)),
             call ''ExecuteGrantStmt'' []]
      | T_GrantRoleStmt is_grant \<Rightarrow> block [call ''GrantRole'' [], on_all_nodes]
      | T_AlterDefaultPrivilegesStmt \<Rightarrow>
          block [call ''ExecAlterDefaultPrivilegesStmt'' [], on_all_nodes]
      | T_DefineStmt kind args_nil \<Rightarrow>
          block
            [(case kind of
                OBJECT_AGGREGATE \<Rightarrow> call ''DefineAggregate'' []
              | OBJECT_OPERATOR \<Rightarrow> block [Assert args_nil, call ''DefineOperator'' []]
              | OBJECT_TYPE \<Rightarrow> block [Assert args_nil, call ''DefineType'' []]
              | OBJECT_TSPARSER \<Rightarrow> block [Assert args_nil, call ''DefineTSParser'' []]
              | OBJECT_TSDICTIONARY \<Rightarrow> block [Assert args_nil, call ''DefineTSDictionary'' []]
              | OBJECT_TSTEMPLATE \<Rightarrow> block [Assert args_nil, call ''DefineTSTemplate'' []]
              | OBJECT_TSCONFIGURATION \<Rightarrow>
                  block [Assert args_nil, call ''DefineTSConfiguration'' []]
              | OBJECT_COLLATION \<Rightarrow> block [Assert args_nil, call ''DefineCollation'' []]
              | _ \<Rightarrow> elog_ERROR ''unrecognized define stmt type''),
             on_all_nodes]
      | T_CompositeTypeStmt \<Rightarrow> block [call ''DefineCompositeType'' [], on_all_nodes]
      | T_CreateEnumStmt \<Rightarrow> block [call ''DefineEnum'' [], on_all_nodes]
      | T_AlterEnumStmt \<Rightarrow>
          block [PreventTransactionChain isTopLevel ''ALTER TYPE ... ADD'', call ''AlterEnum'' []]
      | T_ViewStmt \<Rightarrow> block [call ''DefineView'' [], on_coords]
      | T_CreateFunctionStmt \<Rightarrow> block [call ''CreateFunction'' [], on_all_nodes]
      | T_AlterFunctionStmt \<Rightarrow> block [call ''AlterFunction'' [], on_all_nodes]
      | T_IndexStmt concurrent isconstraint \<Rightarrow>
          block
            [ifdef_PGXC env
               (cond concurrent
                  (ereport_ERROR ERRCODE_FEATURE_NOT_SUPPORTED
                     ''PGXC does not support concurrent INDEX yet''
                     ''The feature is not currently supported'')),
             cond concurrent (PreventTransactionChain isTopLevel ''CREATE INDEX CONCURRENTLY''),
             call ''CheckRelationOwnership'' [],
             call ''transformIndexStmt'' [],
             call ''DefineIndex'' [],
             ifdef_PGXC env
               (cond (coord \<and> \<not> isconstraint \<and> \<not> IsConnFromCoord env)
                  (ExecUtilityStmtOnNodes queryString None concurrent EXEC_ON_ALL_NODES env))]
      | T_RuleStmt relation \<Rightarrow>
          block
            [call ''DefineRule'' [],
             ifdef_PGXC env
               (cond origin
                  (ExecUtilityStmtOnNodes queryString None False
                     (if get_rel_relkind env relation = RELKIND_VIEW then EXEC_ON_COORDS
                      else EXEC_ON_ALL_NODES) env))]
      | T_CreateSeqStmt \<Rightarrow> block [call ''DefineSequence'' [], on_coords]
      | T_AlterSeqStmt \<Rightarrow> block [call ''AlterSequence'' [], on_coords]
      | T_RemoveFuncStmt kind \<Rightarrow>
          block
            [(case kind of
                OBJECT_FUNCTION \<Rightarrow> call ''RemoveFunction'' []
              | OBJECT_AGGREGATE \<Rightarrow> call ''RemoveAggregate'' []
              | OBJECT_OPERATOR \<Rightarrow> call ''RemoveOperator'' []
              | _ \<Rightarrow> elog_ERROR ''unrecognized object type''),
             on_all_nodes]
      | T_DoStmt \<Rightarrow> call ''ExecuteDoStmt'' []
      | T_CreatedbStmt \<Rightarrow>
          block
            [PreventTransactionChain isTopLevel ''CREATE DATABASE'',
             call ''createdb'' [],
             ifdef_PGXC env
               (cond coord (ExecUtilityStmtOnNodes queryString None True EXEC_ON_ALL_NODES env))]
      | T_AlterDatabaseStmt \<Rightarrow> block [call ''AlterDatabase'' [], on_all_nodes]
      | T_AlterDatabaseSetStmt \<Rightarrow> block [call ''AlterDatabaseSet'' [], on_all_nodes]
      | T_DropdbStmt dbname \<Rightarrow>
          block
            [ifdef_PGXC env
               (cond origin
                  (block
                     [call ''DropDBCleanConnection'' [dbname],
                      ExecUtilityStmtOnNodes
                        (''CLEAN CONNECTION TO ALL FOR DATABASE '' @ dbname @ '';'')
                        None True EXEC_ON_COORDS env])),
             PreventTransactionChain isTopLevel ''DROP DATABASE'',
             call ''dropdb'' [dbname],
             ifdef_PGXC env
               (cond coord (ExecUtilityStmtOnNodes queryString None True EXEC_ON_ALL_NODES env))]
      | T_NotifyStmt \<Rightarrow>
          block [PreventCommandDuringRecovery ''NOTIFY'' env, call ''Async_Notify'' []]
      | T_ListenStmt \<Rightarrow>
          block
            [PreventCommandDuringRecovery ''LISTEN'' env,
             CheckRestrictedOperation ''LISTEN'' env,
             call ''Async_Listen'' []]
      | T_UnlistenStmt has_conditionname \<Rightarrow>
          block
            [PreventCommandDuringRecovery ''UNLISTEN'' env,
             CheckRestrictedOperation ''UNLISTEN'' env,
             (if has_conditionname then call ''Async_Unlisten'' []
              else call ''Async_UnlistenAll'' [])]
      | T_LoadStmt \<Rightarrow>
          block
            [call ''closeAllVfds'' [],
             call ''load_file'' [],
             ifdef_PGXC env
               (cond coord (ExecUtilityStmtOnNodes queryString None False EXEC_ON_DATANODES env))]
      | T_ClusterStmt \<Rightarrow>
          block
            [PreventCommandDuringRecovery ''CLUSTER'' env,
             call ''cluster'' [],
             ifdef_PGXC env
               (cond coord (ExecUtilityStmtOnNodes queryString None True EXEC_ON_DATANODES env))]
      | T_VacuumStmt vacopt_vacuum \<Rightarrow>
          block
            [PreventCommandDuringRecovery ''VACUUM'' env,
             ifdef_PGXC env
               (cond coord (ExecUtilityStmtOnNodes queryString None True EXEC_ON_DATANODES env)),
             call ''vacuum'' []]
      | T_ExplainStmt \<Rightarrow> call ''ExplainQuery'' []
      | T_VariableSetStmt kind is_local \<Rightarrow>
          block
            [call ''ExecSetVariableStmt'' [],
             ifdef_PGXC env
               (cond origin
                  (\<lambda>st. cond (\<not> is_local \<or> \<not> IsTransactionBlock st)
                     (block
                        [call ''PoolManagerSetCommand'' [],
                         cond (PoolManagerSetCommand_result env < 0)
                           (elog_ERROR ''Postgres-XC: ERROR SET query'')]) st))]
      | T_VariableShowStmt name \<Rightarrow> call ''GetPGVariable'' [name]
      | T_DiscardStmt target \<Rightarrow>
          block
            [CheckRestrictedOperation ''DISCARD'' env,
             call ''DiscardCommand'' [],
             ifdef_PGXC env
               (cond origin
                  (\<lambda>st. cond (\<not> IsTransactionBlock st)
                     (block
                        [call ''PoolManagerSetCommand'' [],
                         cond (PoolManagerSetCommand_result env < 0)
                           (elog_ERROR ''Postgres-XC: ERROR DISCARD query'')]) st))]
      | T_CreateTrigStmt \<Rightarrow>
          block
            [call ''CreateTrigger'' [],
             ifdef_PGXC env
               (block
                  [not_supported ''Postgres-XC does not support TRIGGER yet'',
                   cond coord
                     (ExecUtilityStmtOnNodes queryString None False EXEC_ON_ALL_NODES env)])]
      | T_DropPropertyStmt removeType relation \<Rightarrow>
          block
            [call ''RangeVarGetRelid'' [relation],
             (case removeType of
                OBJECT_RULE \<Rightarrow>
                  block
                    [call ''RemoveRewriteRule'' [],
                     ifdef_PGXC env
                       (cond origin
                          (ExecUtilityStmtOnNodes queryString None False
                             (if get_rel_relkind env relation = RELKIND_VIEW then EXEC_ON_COORDS
                              else EXEC_ON_ALL_NODES) env))]
              | OBJECT_TRIGGER \<Rightarrow> block [call ''DropTrigger'' [], on_all_nodes]
              | _ \<Rightarrow> elog_ERROR ''unrecognized object type'')]
      | T_CreatePLangStmt \<Rightarrow> block [call ''CreateProceduralLanguage'' [], on_all_nodes]
      | T_DropPLangStmt \<Rightarrow> block [call ''DropProceduralLanguage'' [], on_all_nodes]
      | T_CreateDomainStmt \<Rightarrow> block [call ''DefineDomain'' [], on_all_nodes]
      | T_CreateRoleStmt \<Rightarrow> block [call ''CreateRole'' [], on_all_nodes]
      | T_AlterRoleStmt \<Rightarrow> block [call ''AlterRole'' [], on_all_nodes]
      | T_AlterRoleSetStmt \<Rightarrow> block [call ''AlterRoleSet'' [], on_all_nodes]
      | T_DropRoleStmt \<Rightarrow> block [call ''DropRole'' [], on_all_nodes]
      | T_DropOwnedStmt \<Rightarrow> block [call ''DropOwnedObjects'' [], on_all_nodes]
      | T_ReassignOwnedStmt \<Rightarrow> block [call ''ReassignOwnedObjects'' [], on_all_nodes]
      | T_LockStmt \<Rightarrow>
          block
            [RequireTransactionChain isTopLevel ''LOCK TABLE'',
             call ''LockTableCommand'' [],
             on_all_nodes]
      | T_ConstraintsSetStmt \<Rightarrow> call ''AfterTriggerSetState'' []
      | T_CheckPointStmt \<Rightarrow>
          block
            [cond (\<not> superuser env)
               (ereport_ERROR ERRCODE_INSUFFICIENT_PRIVILEGE
                  ''must be superuser to do CHECKPOINT'' []),
             RequestCheckpoint
               ({CHECKPOINT_IMMEDIATE} \<union> {CHECKPOINT_WAIT} \<union>
                (if RecoveryInProgress env then {} else {CHECKPOINT_FORCE})),
             ifdef_PGXC env
               (cond coord (ExecUtilityStmtOnNodes queryString None True EXEC_ON_DATANODES env))]
      | T_BarrierStmt barrier_id \<Rightarrow>
          (if PGXC env then call_with_completionTag ''RequestBarrier'' [barrier_id] completionTag env
           else unrecognized)
      | T_ReindexStmt kind \<Rightarrow>
          block
            [PreventCommandDuringRecovery ''REINDEX'' env,
             (case kind of
                OBJECT_INDEX \<Rightarrow> call ''ReindexIndex'' []
              | OBJECT_TABLE \<Rightarrow> call ''ReindexTable'' []
              | OBJECT_DATABASE \<Rightarrow>
                  block
                    [PreventTransactionChain isTopLevel ''REINDEX DATABASE'',
                     call ''ReindexDatabase'' []]
              | _ \<Rightarrow> elog_ERROR ''unrecognized object type''),
             ifdef_PGXC env
               (cond coord
                  (ExecUtilityStmtOnNodes queryString None (kind = OBJECT_DATABASE)
                     EXEC_ON_ALL_NODES env))]
      | T_CreateConversionStmt \<Rightarrow> block [call ''CreateConversionCommand'' [], on_all_nodes]
      | T_CreateCastStmt \<Rightarrow> block [call ''CreateCast'' [], on_all_nodes]
      | T_DropCastStmt \<Rightarrow> block [call ''DropCast'' [], on_all_nodes]
      | T_CreateOpClassStmt \<Rightarrow> block [call ''DefineOpClass'' [], on_all_nodes]
      | T_CreateOpFamilyStmt \<Rightarrow> block [call ''DefineOpFamily'' [], on_all_nodes]
      | T_AlterOpFamilyStmt \<Rightarrow> block [call ''AlterOpFamily'' [], on_all_nodes]
      | T_RemoveOpClassStmt \<Rightarrow> block [call ''RemoveOpClass'' [], on_all_nodes]
      | T_RemoveOpFamilyStmt \<Rightarrow> block [call ''RemoveOpFamily'' [], on_all_nodes]
      | T_AlterTSDictionaryStmt \<Rightarrow> block [call ''AlterTSDictionary'' [], on_all_nodes]
      | T_AlterTSConfigurationStmt \<Rightarrow> block [call ''AlterTSConfiguration'' [], on_all_nodes]
      | T_RemoteQuery step \<Rightarrow>
          (if PGXC env then
             block
               [Assert (IS_PGXC_COORDINATOR env),
                cond (\<not> IsConnFromCoord env) (ExecRemoteUtility step)]
           else unrecognized)
      | T_CleanConnStmt \<Rightarrow>
          (if PGXC env then
             block
               [Assert (IS_PGXC_COORDINATOR env),
                call ''CleanConnection'' [],
                cond coord (ExecUtilityStmtOnNodes queryString None True EXEC_ON_COORDS env)]
           else unrecognized)
      | _ \<Rightarrow> unrecognized)"

text \<open>\<^verbatim>\<open>IsA(stmt, CreateStmt)\<close> and its like: the test of a node's tag.\<close>

definition IsA_CreateStmt :: "Node \<Rightarrow> bool" where
  "IsA_CreateStmt stmt = (case stmt of T_CreateStmt stmts \<Rightarrow> True | _ \<Rightarrow> False)"

definition IsA_CreateForeignTableStmt :: "Node \<Rightarrow> bool" where
  "IsA_CreateForeignTableStmt stmt =
     (case stmt of T_CreateForeignTableStmt stmts \<Rightarrow> True | _ \<Rightarrow> False)"

definition IsA_AlterTableStmt :: "Node \<Rightarrow> bool" where
  "IsA_AlterTableStmt stmt =
     (case stmt of T_AlterTableStmt relkind relation stmts \<Rightarrow> True | _ \<Rightarrow> False)"

text \<open>
  What the loop of \<^verbatim>\<open>case T_CreateStmt\<close> does for a list element that is itself a
  \<^verbatim>\<open>CreateStmt\<close> (the table, then the decision on its secondary relation) or a
  \<^verbatim>\<open>CreateForeignTableStmt\<close>.
\<close>

definition CreateStmt_table :: proc where
  "CreateStmt_table =
     block
       [call ''DefineRelation'' [''RELKIND_RELATION''],
        CommandCounterIncrement,
        call ''transformRelOptions'' [''toast''],
        call ''heap_reloptions'' [''RELKIND_TOASTVALUE''],
        call ''AlterTableCreateToastTable'' []]"

definition CreateStmt_foreign_table :: proc where
  "CreateStmt_foreign_table =
     block
       [call ''DefineRelation'' [''RELKIND_FOREIGN_TABLE''],
        call ''CreateForeignTable'' []]"

text \<open>\<^verbatim>\<open>if (completionTag) completionTag[0] = '\\0';\<close>\<close>

definition clear_completionTag :: "addr option \<Rightarrow> state \<Rightarrow> state" where
  "clear_completionTag completionTag st =
     (case completionTag of None \<Rightarrow> st | Some p \<Rightarrow> st\<lparr>mem := (mem st)(p := [])\<rparr>)"

lemma size_AddRemoteQueryNode:
  "2 * size_list size (AddRemoteQueryNode stmts queryString remoteExecType env) <
     Suc (Suc (Suc (2 * size_list size stmts)))"
  by (simp add: AddRemoteQueryNode_def)

text \<open>
  \<^verbatim>\<open>standard_ProcessUtility\<close>: the read-only guard, the clearing of the completion
  tag, the switch.  \<^verbatim>\<open>ProcessUtility_hook\<close> is \<^verbatim>\<open>NULL\<close>, as the file initialises
  it, so that \<^verbatim>\<open>ProcessUtility\<close> is \<^verbatim>\<open>standard_ProcessUtility\<close>; the sub-statements
  of the two loops re-enter it with \<^verbatim>\<open>isTopLevel = false\<close> and
  \<^verbatim>\<open>completionTag = NULL\<close>.  \<open>CreateStmt_foreach\<close> and \<open>AlterTableStmt_foreach\<close> are
  the \<^verbatim>\<open>foreach(l, stmts)\<close> loops of the branches \<^verbatim>\<open>T_CreateStmt\<close> /
  \<^verbatim>\<open>T_CreateForeignTableStmt\<close> and \<^verbatim>\<open>T_AlterTableStmt\<close>.
\<close>

function standard_ProcessUtility ::
    "Node \<Rightarrow> string \<Rightarrow> bool \<Rightarrow> addr option \<Rightarrow> env \<Rightarrow> proc"
  and CreateStmt_foreach :: "Node list \<Rightarrow> string \<Rightarrow> env \<Rightarrow> proc"
  and AlterTableStmt_foreach :: "Node list \<Rightarrow> string \<Rightarrow> env \<Rightarrow> proc"
where
  "standard_ProcessUtility parsetree queryString isTopLevel completionTag env st =
     (case check_xact_readonly parsetree env st of
        (Some e, st') \<Rightarrow> (Some e, st')
      | (None, st0) \<Rightarrow>
          (let st1 = clear_completionTag completionTag st0
           in
           case parsetree of
             T_CreateStmt stmts \<Rightarrow>
               CreateStmt_foreach
                 (if PGXC env \<and> isTopLevel
                  then AddRemoteQueryNode stmts queryString EXEC_ON_ALL_NODES env else stmts)
                 queryString env st1
           | T_CreateForeignTableStmt stmts \<Rightarrow>
               CreateStmt_foreach
                 (if PGXC env \<and> isTopLevel
                  then AddRemoteQueryNode stmts queryString EXEC_ON_ALL_NODES env else stmts)
                 queryString env st1
           | T_AlterTableStmt relkind relation stmts \<Rightarrow>
               AlterTableStmt_foreach
                 (if PGXC env \<and> isTopLevel
                  then AddRemoteQueryNode stmts queryString
                         (relation_remoteExecType relkind relation env) env
                  else stmts)
                 queryString env st1
           | _ \<Rightarrow>
               standard_ProcessUtility_switch parsetree queryString isTopLevel completionTag env st1))"
| "CreateStmt_foreach [] queryString env st = (None, st)"
| "CreateStmt_foreach (stmt # l) queryString env st =
     (case (if IsA_CreateStmt stmt then CreateStmt_table st
            else if IsA_CreateForeignTableStmt stmt then CreateStmt_foreign_table st
            else standard_ProcessUtility stmt queryString False None env st) of
        (Some e, st') \<Rightarrow> (Some e, st')
      | (None, st') \<Rightarrow>
          (case (if l \<noteq> [] then CommandCounterIncrement st' else (None, st')) of
             (Some e, st'') \<Rightarrow> (Some e, st'')
           | (None, st'') \<Rightarrow> CreateStmt_foreach l queryString env st''))"
| "AlterTableStmt_foreach [] queryString env st = (None, st)"
| "AlterTableStmt_foreach (stmt # l) queryString env st =
     (case (if IsA_AlterTableStmt stmt then call ''AlterTable'' [] st
            else standard_ProcessUtility stmt queryString False None env st) of
        (Some e, st') \<Rightarrow> (Some e, st')
      | (None, st') \<Rightarrow>
          (case (if l \<noteq> [] then CommandCounterIncrement st' else (None, st')) of
             (Some e, st'') \<Rightarrow> (Some e, st'')
           | (None, st'') \<Rightarrow> AlterTableStmt_foreach l queryString env st''))"
  by pat_completeness auto
termination
  by (relation "measure (\<lambda>x. case x of
        Inl (parsetree, queryString, isTopLevel, completionTag, env, st) \<Rightarrow> 2 * size parsetree + 2
      | Inr (Inl (l, queryString, env, st)) \<Rightarrow> 2 * size_list size l + 1
      | Inr (Inr (l, queryString, env, st)) \<Rightarrow> 2 * size_list size l + 1)")
     (auto simp: size_AddRemoteQueryNode)

declare standard_ProcessUtility.simps(1) [simp del]

declare CreateCommandTag.simps [simp del]

text \<open>
  \<^verbatim>\<open>ProcessUtility\<close> with no plugin hooked in.  (\<^verbatim>\<open>Assert(queryString != NULL)\<close>:
  a \<open>string\<close> is never \<^verbatim>\<open>NULL\<close>.)
\<close>

definition ProcessUtility :: "Node \<Rightarrow> string \<Rightarrow> bool \<Rightarrow> addr option \<Rightarrow> env \<Rightarrow> proc" where
  "ProcessUtility = standard_ProcessUtility"

subsection \<open>Utility statements that return tuples\<close>





subsection \<open>Notions used in the statements and proofs\<close>

text \<open>
  The branches of the dispatcher that loop over generated sub-statements.
\<close>

definition recursive_branch :: "Node \<Rightarrow> bool" where
  "recursive_branch parsetree =
     (IsA_CreateStmt parsetree \<or> IsA_CreateForeignTableStmt parsetree \<or> IsA_AlterTableStmt parsetree)"

text \<open>\<open>intersperse a xs\<close> puts \<open>a\<close> between consecutive elements of \<open>xs\<close>.\<close>

fun intersperse :: "'a \<Rightarrow> 'a list \<Rightarrow> 'a list" where
  "intersperse a [] = []"
| "intersperse a [x] = [x]"
| "intersperse a (x # y # ys) = x # a # intersperse a (y # ys)"

text \<open>
  What the two loops do for one list element, and the clearing of the completion tag as
  a step.
\<close>

definition CreateStmt_foreach_body :: "string \<Rightarrow> env \<Rightarrow> Node \<Rightarrow> proc" where
  "CreateStmt_foreach_body queryString env stmt =
     (if IsA_CreateStmt stmt then CreateStmt_table
      else if IsA_CreateForeignTableStmt stmt then CreateStmt_foreign_table
      else standard_ProcessUtility stmt queryString False None env)"

definition AlterTableStmt_foreach_body :: "string \<Rightarrow> env \<Rightarrow> Node \<Rightarrow> proc" where
  "AlterTableStmt_foreach_body queryString env stmt =
     (if IsA_AlterTableStmt stmt then call ''AlterTable'' []
      else standard_ProcessUtility stmt queryString False None env)"

definition clear_tag :: "addr option \<Rightarrow> proc" where
  "clear_tag completionTag st = (None, clear_completionTag completionTag st)"

text \<open>
  A step is independent of the caller's buffers when it neither reads nor writes them:
  run on a state with other buffer contents, it does the same and leaves them alone.
\<close>

definition indep :: "proc \<Rightarrow> bool" where
  "indep p = (\<forall>st m. p (st\<lparr>mem := m\<rparr>) = (fst (p st), (snd (p st))\<lparr>mem := m\<rparr>))"

text \<open>
  The state with the status string \<open>s\<close> in the caller's completion-tag buffer, when
  there is one.
\<close>

definition report :: "addr option \<Rightarrow> string \<Rightarrow> state \<Rightarrow> state" where
  "report completionTag s st =
     (case completionTag of None \<Rightarrow> st | Some p \<Rightarrow> st\<lparr>mem := (mem st)(p := s)\<rparr>)"

text \<open>The statements that a trace hands to the remote-execution transport.\<close>

definition remote_steps :: "event list \<Rightarrow> RemoteQuery list" where
  "remote_steps tr = concat (map (\<lambda>e. case e of Remote step \<Rightarrow> [step] | _ \<Rightarrow> []) tr)"

text \<open>A step hands nothing to the remote-execution transport.\<close>

definition no_remote :: "proc \<Rightarrow> bool" where
  "no_remote p = (\<forall>st. remote_steps (trace (snd (p st))) = remote_steps (trace st))"

text \<open>
  The procedure \<open>f\<close>, which is handed the buffer at \<open>p\<close>, does what \<open>g\<close>, which is handed no
  buffer, does, and leaves the buffers as they were or with one of the strings \<open>T\<close> at \<open>p\<close>.
\<close>

definition tagged :: "addr \<Rightarrow> string set \<Rightarrow> proc \<Rightarrow> proc \<Rightarrow> bool" where
  "tagged p T f g =
     (\<forall>st M. \<exists>M'\<in>insert M ((\<lambda>t. M(p := t)) ` T).
        f (st\<lparr>mem := M\<rparr>) = (fst (g st), (snd (g st))\<lparr>mem := M'\<rparr>))"

text \<open>
  The status strings that can be written after the dispatcher has cleared the buffer: its
  own two, and those of the functions that it hands the buffer to.
\<close>

definition tag_writes :: "env \<Rightarrow> string set" where
  "tag_writes env =
     {''ROLLBACK'',
      take (COMPLETION_TAG_BUFSIZE env - 1) (''COPY '' @ string_of_nat (unat (DoCopy_result env)))} \<union>
     ran (completionTag_written env)"

subsection \<open>Concrete inputs\<close>

text \<open>
  A coordinator that got its statement from a client, outside recovery and outside a
  read-only transaction; a session outside a transaction block whose buffer at address
  0 holds an old string.
\<close>

definition coordinator_env :: env where
  "coordinator_env =
     \<lparr>PGXC = True, IS_PGXC_COORDINATOR = True, IsConnFromCoord = False, XactReadOnly = False,
      RecoveryInProgress = False, InSecurityRestrictedOperation = False, superuser = True,
      COMPLETION_TAG_BUFSIZE = 64, get_rel_relkind = (\<lambda>relation. RELKIND_RELATION),
      EndTransactionBlock_result = True, PrepareTransactionBlock_result = True,
      PGXCNodePrepare_result = False, PGXCNodeRollbackPrepared_result = False,
      PoolManagerSetCommand_result = 0, DoCopy_result = 1024,
      completionTag_written =
        (\<lambda>name. if name = ''PerformPortalFetch'' then Some ''FETCH 1'' else None)\<rparr>"

definition idle_state :: state where
  "idle_state = \<lparr>blockState = Idle, mem = (\<lambda>p. ''SELECT 1''), trace = []\<rparr>"

section \<open>Verification\<close>

lemmas proc_defs = skip_def throw_def cond_def ifdef_PGXC_def ereport_ERROR_def elog_ERROR_def
  Assert_def call_def CommandCounterIncrement_def ExecRemoteUtility_def RequestCheckpoint_def
  strcpy_def snprintf_def not_supported_def report_ROLLBACK_def
  PreventCommandIfReadOnly_def PreventCommandDuringRecovery_def CheckRestrictedOperation_def
  IsTransactionBlock_def RequireTransactionChain_def PreventTransactionChain_def
  BeginTransactionBlock_def EndTransactionBlock_def UserAbortTransactionBlock_def
  PrepareTransactionBlock_def FinishPreparedTransaction_def DefineSavepoint_def
  ReleaseSavepoint_def RollbackToSavepoint_def ExecUtilityStmtOnNodes_def

subsection \<open>The dispatcher, branch by branch\<close>

lemmas block_simps = block.simps

declare block.simps [simp del]

declare CreateStmt_foreach.simps(2) [simp del]

declare AlterTableStmt_foreach.simps(2) [simp del]

lemma recursive_branch_cases:
  obtains stmts where "parsetree = T_CreateStmt stmts"
  | stmts where "parsetree = T_CreateForeignTableStmt stmts"
  | relkind relation stmts where "parsetree = T_AlterTableStmt relkind relation stmts"
  | "\<not> recursive_branch parsetree"
  by (cases parsetree)
     (simp_all add: recursive_branch_def IsA_CreateStmt_def IsA_CreateForeignTableStmt_def
        IsA_AlterTableStmt_def)

lemma standard_ProcessUtility_leaf:
  "\<not> recursive_branch parsetree \<Longrightarrow>
   standard_ProcessUtility parsetree queryString isTopLevel completionTag env st =
     (case check_xact_readonly parsetree env st of
        (Some e, st') \<Rightarrow> (Some e, st')
      | (None, st0) \<Rightarrow>
          standard_ProcessUtility_switch parsetree queryString isTopLevel completionTag env
            (clear_completionTag completionTag st0))"
  by (cases parsetree)
     (simp_all add: standard_ProcessUtility.simps recursive_branch_def IsA_CreateStmt_def
        IsA_CreateForeignTableStmt_def IsA_AlterTableStmt_def Let_def
        split: prod.split option.split)

lemma standard_ProcessUtility_CreateStmt:
  "standard_ProcessUtility (T_CreateStmt stmts) queryString isTopLevel completionTag env st =
     (case check_xact_readonly (T_CreateStmt stmts) env st of
        (Some e, st') \<Rightarrow> (Some e, st')
      | (None, st0) \<Rightarrow>
          CreateStmt_foreach
            (if PGXC env \<and> isTopLevel
             then AddRemoteQueryNode stmts queryString EXEC_ON_ALL_NODES env else stmts)
            queryString env (clear_completionTag completionTag st0))"
  by (simp add: standard_ProcessUtility.simps Let_def split: prod.split option.split)

lemma standard_ProcessUtility_CreateForeignTableStmt:
  "standard_ProcessUtility (T_CreateForeignTableStmt stmts) queryString isTopLevel completionTag env st =
     (case check_xact_readonly (T_CreateForeignTableStmt stmts) env st of
        (Some e, st') \<Rightarrow> (Some e, st')
      | (None, st0) \<Rightarrow>
          CreateStmt_foreach
            (if PGXC env \<and> isTopLevel
             then AddRemoteQueryNode stmts queryString EXEC_ON_ALL_NODES env else stmts)
            queryString env (clear_completionTag completionTag st0))"
  by (simp add: standard_ProcessUtility.simps Let_def split: prod.split option.split)

lemma standard_ProcessUtility_AlterTableStmt:
  "standard_ProcessUtility (T_AlterTableStmt relkind relation stmts) queryString isTopLevel
      completionTag env st =
     (case check_xact_readonly (T_AlterTableStmt relkind relation stmts) env st of
        (Some e, st') \<Rightarrow> (Some e, st')
      | (None, st0) \<Rightarrow>
          AlterTableStmt_foreach
            (if PGXC env \<and> isTopLevel
             then AddRemoteQueryNode stmts queryString
                    (relation_remoteExecType relkind relation env) env
             else stmts)
            queryString env (clear_completionTag completionTag st0))"
  by (simp add: standard_ProcessUtility.simps Let_def split: prod.split option.split)

lemma CreateCommandTag_denied:
  "readonly_denied parsetree \<Longrightarrow> \<exists>tag. CreateCommandTag pgxc parsetree = Some tag"
  by (cases parsetree)
     (simp_all add: readonly_denied_def CreateCommandTag.simps
        split: ObjectType.split)

lemma check_xact_readonly_cases:
  "check_xact_readonly parsetree env st =
     (if XactReadOnly env \<and> readonly_denied parsetree then
        (Some (ereport_error ERRCODE_READ_ONLY_SQL_TRANSACTION
           (''cannot execute '' @ the (CreateCommandTag (PGXC env) parsetree) @
            '' in a read-only transaction'') []), st)
      else (None, st))"
  using CreateCommandTag_denied [of parsetree "PGXC env"]
  by (auto simp add: check_xact_readonly_def proc_defs)

subsection \<open>Procedures that neither read nor write the caller's buffers\<close>

lemma indepD: "indep p \<Longrightarrow> p (st\<lparr>mem := m\<rparr>) = (fst (p st), (snd (p st))\<lparr>mem := m\<rparr>)"
  by (simp add: indep_def)

lemma indep_mem: "indep p \<Longrightarrow> mem (snd (p st)) = mem st"
proof -
  assume "indep p"
  from indepD [OF this, where st = st and m = "mem st"] have "snd (p st) = (snd (p st))\<lparr>mem := mem st\<rparr>"
    by (cases "p st") simp
  then have "mem (snd (p st)) = mem ((snd (p st))\<lparr>mem := mem st\<rparr>)"
    by simp
  then show ?thesis by simp
qed

lemma indep_prims [simp]:
  "indep skip" "indep (throw e)" "indep (ereport_ERROR c msg d)" "indep (elog_ERROR msg)"
  "indep (Assert b)" "indep (call name args)" "indep CommandCounterIncrement"
  "indep (ExecRemoteUtility step)" "indep (RequestCheckpoint flags)" "indep (not_supported msg)"
  "indep (PreventCommandIfReadOnly cmdname env)" "indep (PreventCommandDuringRecovery cmdname env)"
  "indep (CheckRestrictedOperation cmdname env)" "indep (RequireTransactionChain isTopLevel cmdname)"
  "indep (PreventTransactionChain isTopLevel cmdname)" "indep BeginTransactionBlock"
  "indep (EndTransactionBlock args)" "indep UserAbortTransactionBlock"
  "indep (PrepareTransactionBlock gid)" "indep (FinishPreparedTransaction gid b)"
  "indep (DefineSavepoint name)" "indep (ReleaseSavepoint options)"
  "indep (RollbackToSavepoint options)" "indep (ExecUtilityStmtOnNodes q nodes fa et env)"
  "indep (report_ROLLBACK None)" "indep (check_xact_readonly parsetree env)"
  "indep (call_with_completionTag name args None env)"
  by (simp_all add: indep_def proc_defs check_xact_readonly_cases call_with_completionTag_def)

lemma indep_if [simp]:
  "indep (if b then p else q) = ((b \<longrightarrow> indep p) \<and> (\<not> b \<longrightarrow> indep q))"
  by simp

lemma indep_cond [simp]: "indep (cond b p) = (b \<longrightarrow> indep p)"
  by (simp add: cond_def)

lemma indep_ifdef [simp]: "indep (ifdef_PGXC env p) = (PGXC env \<longrightarrow> indep p)"
  by (simp add: ifdef_PGXC_def)

lemma indep_block [simp]: "(\<forall>p\<in>set ps. indep p) \<Longrightarrow> indep (block ps)"
proof (induction ps)
  case Nil
  show ?case by (simp add: indep_def block_simps)
next
  case (Cons p ps)
  then have p: "indep p" and ps: "indep (block ps)" by simp_all
  show ?case
    unfolding indep_def
  proof (intro allI)
    fix st m
    show "block (p # ps) (st\<lparr>mem := m\<rparr>) =
        (fst (block (p # ps) st), (snd (block (p # ps) st))\<lparr>mem := m\<rparr>)"
      using indepD [OF p, where st = st and m = m]
        indepD [OF ps, where st = "snd (p st)" and m = m]
      by (cases "p st") (auto simp: block_simps split: option.splits)
  qed
qed

lemma indep_tables [simp]: "indep CreateStmt_table" "indep CreateStmt_foreign_table"
  by (simp_all add: CreateStmt_table_def CreateStmt_foreign_table_def)

lemma indep_block_map [simp]: "\<forall>x. indep (f x) \<Longrightarrow> indep (block (map f xs))"
  by (rule indep_block) simp

lemma IsTransactionBlock_mem [simp]:
  "IsTransactionBlock (st\<lparr>mem := m\<rparr>) = IsTransactionBlock st"
  by (simp add: IsTransactionBlock_def)

lemma indep_state_cond [simp]:
  "indep p \<Longrightarrow> \<forall>st m. c (st\<lparr>mem := m\<rparr>) = c st \<Longrightarrow> indep (\<lambda>st. cond (c st) p st)"
  by (simp add: indep_def cond_def skip_def)

lemma indep_switch:
  "indep (standard_ProcessUtility_switch parsetree queryString isTopLevel None env)"
  unfolding standard_ProcessUtility_switch_def TransactionStmt_switch_def Let_def
  by (cases parsetree)
     (simp_all split: TransactionStmtKind.split ObjectType.split option.split sum.split)

subsection \<open>The dispatcher as a sequence of steps\<close>

lemma set_intersperse: "set (intersperse a xs) \<subseteq> insert a (set xs)"
  by (induction a xs rule: intersperse.induct) auto

lemma block_single: "block [p] = p"
  by (rule ext) (simp add: block_simps split: prod.split option.split)

lemma block_CCI:
  "block (p # CommandCounterIncrement # ps) st =
     (case p st of
        (Some e, st') \<Rightarrow> (Some e, st')
      | (None, st') \<Rightarrow> block ps (st'\<lparr>trace := trace st' @ [CCI]\<rparr>))"
  by (simp add: block_simps CommandCounterIncrement_def split: prod.split option.split)

lemma CreateStmt_foreach_Cons:
  "CreateStmt_foreach (stmt # l) queryString env st =
     (case CreateStmt_foreach_body queryString env stmt st of
        (Some e, st') \<Rightarrow> (Some e, st')
      | (None, st') \<Rightarrow>
          (if l = [] then (None, st')
           else CreateStmt_foreach l queryString env (st'\<lparr>trace := trace st' @ [CCI]\<rparr>)))"
  by (cases "l = []")
     (simp_all add: CreateStmt_foreach.simps(2) CreateStmt_foreach_body_def
        CommandCounterIncrement_def split: prod.split option.split)

lemma AlterTableStmt_foreach_Cons:
  "AlterTableStmt_foreach (stmt # l) queryString env st =
     (case AlterTableStmt_foreach_body queryString env stmt st of
        (Some e, st') \<Rightarrow> (Some e, st')
      | (None, st') \<Rightarrow>
          (if l = [] then (None, st')
           else AlterTableStmt_foreach l queryString env (st'\<lparr>trace := trace st' @ [CCI]\<rparr>)))"
  by (cases "l = []")
     (simp_all add: AlterTableStmt_foreach.simps(2) AlterTableStmt_foreach_body_def
        CommandCounterIncrement_def split: prod.split option.split)

lemma CreateStmt_foreach_block:
  "CreateStmt_foreach l queryString env st =
     block (intersperse CommandCounterIncrement (map (CreateStmt_foreach_body queryString env) l)) st"
proof (induction l arbitrary: st rule: induct_list012)
  case 1
  show ?case by (simp add: block_simps)
next
  case (2 x)
  show ?case
    by (simp add: CreateStmt_foreach_Cons block_simps split: prod.split option.split)
next
  case (3 x y zs)
  have "CreateStmt_foreach (y # zs) queryString env s =
          block (intersperse CommandCounterIncrement
            (map (CreateStmt_foreach_body queryString env) (y # zs))) s" for s
    by (rule "3.IH"(2))
  then show ?case
    by (simp add: CreateStmt_foreach_Cons [of x] block_CCI split: prod.split option.split)
qed

lemma AlterTableStmt_foreach_block:
  "AlterTableStmt_foreach l queryString env st =
     block (intersperse CommandCounterIncrement (map (AlterTableStmt_foreach_body queryString env) l)) st"
proof (induction l arbitrary: st rule: induct_list012)
  case 1
  show ?case by (simp add: block_simps)
next
  case (2 x)
  show ?case
    by (simp add: AlterTableStmt_foreach_Cons block_simps split: prod.split option.split)
next
  case (3 x y zs)
  have "AlterTableStmt_foreach (y # zs) queryString env s =
          block (intersperse CommandCounterIncrement
            (map (AlterTableStmt_foreach_body queryString env) (y # zs))) s" for s
    by (rule "3.IH"(2))
  then show ?case
    by (simp add: AlterTableStmt_foreach_Cons [of x] block_CCI split: prod.split option.split)
qed

lemma standard_ProcessUtility_leaf_block:
  "\<not> recursive_branch parsetree \<Longrightarrow>
   standard_ProcessUtility parsetree queryString isTopLevel completionTag env =
     block [check_xact_readonly parsetree env, clear_tag completionTag,
            standard_ProcessUtility_switch parsetree queryString isTopLevel completionTag env]"
  by (rule ext)
     (simp add: standard_ProcessUtility_leaf clear_tag_def block_simps split: prod.split option.split)

lemma standard_ProcessUtility_CreateStmt_block:
  "standard_ProcessUtility (T_CreateStmt stmts) queryString isTopLevel completionTag env =
     block [check_xact_readonly (T_CreateStmt stmts) env, clear_tag completionTag,
            CreateStmt_foreach
              (if PGXC env \<and> isTopLevel
               then AddRemoteQueryNode stmts queryString EXEC_ON_ALL_NODES env else stmts)
              queryString env]"
  by (rule ext)
     (simp add: standard_ProcessUtility_CreateStmt clear_tag_def block_simps split: prod.split option.split)

lemma standard_ProcessUtility_CreateForeignTableStmt_block:
  "standard_ProcessUtility (T_CreateForeignTableStmt stmts) queryString isTopLevel completionTag env =
     block [check_xact_readonly (T_CreateForeignTableStmt stmts) env, clear_tag completionTag,
            CreateStmt_foreach
              (if PGXC env \<and> isTopLevel
               then AddRemoteQueryNode stmts queryString EXEC_ON_ALL_NODES env else stmts)
              queryString env]"
  by (rule ext)
     (simp add: standard_ProcessUtility_CreateForeignTableStmt clear_tag_def block_simps
        split: prod.split option.split)

lemma standard_ProcessUtility_AlterTableStmt_block:
  "standard_ProcessUtility (T_AlterTableStmt relkind relation stmts) queryString isTopLevel
      completionTag env =
     block [check_xact_readonly (T_AlterTableStmt relkind relation stmts) env,
            clear_tag completionTag,
            AlterTableStmt_foreach
              (if PGXC env \<and> isTopLevel
               then AddRemoteQueryNode stmts queryString
                      (relation_remoteExecType relkind relation env) env
               else stmts)
              queryString env]"
  by (rule ext)
     (simp add: standard_ProcessUtility_AlterTableStmt clear_tag_def block_simps split: prod.split option.split)

lemma set_AddRemoteQueryNode:
  "x \<in> set (AddRemoteQueryNode stmts queryString remoteExecType env) \<Longrightarrow>
     x \<in> set stmts \<or> (\<exists>step. x = T_RemoteQuery step)"
  by (auto simp: AddRemoteQueryNode_def split: if_splits)

lemma size_in_list: "x \<in> set xs \<Longrightarrow> size (x::Node) < Suc (size_list size xs)"
  by (induction xs) auto

lemma not_recursive_RemoteQuery [simp]: "\<not> recursive_branch (T_RemoteQuery step)"
  by (simp add: recursive_branch_def IsA_CreateStmt_def IsA_CreateForeignTableStmt_def
        IsA_AlterTableStmt_def)

subsection \<open>Properties of steps that the dispatcher inherits\<close>

text \<open>
  A property of steps that holds of every compound statement whose parts have it, of the
  steps of the two loops, of the guard, of the clearing of the tag and of every branch
  of the switch, holds of every dispatch: first of the sub-statements, by induction on
  the size of the parse tree, then of the dispatch itself.
\<close>

lemma foreach_closed:
  assumes block: "\<And>ps. \<forall>p\<in>set ps. Pr p \<Longrightarrow> Pr (block ps)"
    and steps: "Pr CommandCounterIncrement" "Pr CreateStmt_table" "Pr CreateStmt_foreign_table"
      "Pr (call ''AlterTable'' [])"
    and sub: "\<forall>x\<in>set l. Pr (standard_ProcessUtility x queryString False None env)"
  shows "Pr (CreateStmt_foreach l queryString env)"
    and "Pr (AlterTableStmt_foreach l queryString env)"
proof -
  have "Pr (block (intersperse CommandCounterIncrement
          (map (CreateStmt_foreach_body queryString env) l)))"
    using steps sub set_intersperse [of CommandCounterIncrement
            "map (CreateStmt_foreach_body queryString env) l"]
    by (intro block) (auto simp: CreateStmt_foreach_body_def)
  moreover have "CreateStmt_foreach l queryString env =
      block (intersperse CommandCounterIncrement (map (CreateStmt_foreach_body queryString env) l))"
    by (rule ext) (rule CreateStmt_foreach_block)
  ultimately show "Pr (CreateStmt_foreach l queryString env)"
    by simp
  have "Pr (block (intersperse CommandCounterIncrement
          (map (AlterTableStmt_foreach_body queryString env) l)))"
    using steps sub set_intersperse [of CommandCounterIncrement
            "map (AlterTableStmt_foreach_body queryString env) l"]
    by (intro block) (auto simp: AlterTableStmt_foreach_body_def)
  moreover have "AlterTableStmt_foreach l queryString env =
      block (intersperse CommandCounterIncrement (map (AlterTableStmt_foreach_body queryString env) l))"
    by (rule ext) (rule AlterTableStmt_foreach_block)
  ultimately show "Pr (AlterTableStmt_foreach l queryString env)"
    by simp
qed

lemma dispatch_closed:
  assumes block: "\<And>ps. \<forall>p\<in>set ps. Pr p \<Longrightarrow> Pr (block ps)"
    and steps: "Pr CommandCounterIncrement" "Pr CreateStmt_table" "Pr CreateStmt_foreign_table"
      "Pr (call ''AlterTable'' [])"
    and guard: "\<And>parsetree. Pr (check_xact_readonly parsetree env)"
    and clear: "Pr (clear_tag None)" "Pr (clear_tag completionTag)"
    and switch:
      "\<And>parsetree isTopLevel.
         Pr (standard_ProcessUtility_switch parsetree queryString isTopLevel None env)"
      "\<And>parsetree isTopLevel.
         Pr (standard_ProcessUtility_switch parsetree queryString isTopLevel completionTag env)"
  shows "Pr (standard_ProcessUtility parsetree queryString isTopLevel completionTag env)"
proof -
  have leaf: "Pr (standard_ProcessUtility x queryString top' ct env)"
    if "\<not> recursive_branch x" and "ct = None \<or> ct = completionTag" for x top' ct
    using that guard clear switch
    by (auto simp: standard_ProcessUtility_leaf_block intro!: block)
  have rec: "Pr (standard_ProcessUtility x queryString top' ct env)"
    if sub: "\<And>y. size y < size x \<Longrightarrow> Pr (standard_ProcessUtility y queryString False None env)"
      and ct: "ct = None \<or> ct = completionTag" for x top' ct
  proof -
    have elems: "\<forall>y\<in>set (if PGXC env \<and> top'
                   then AddRemoteQueryNode stmts queryString t env else stmts).
                 Pr (standard_ProcessUtility y queryString False None env)"
      if "size_list size stmts < size x" for stmts t
    proof
      fix y
      assume "y \<in> set (if PGXC env \<and> top'
                then AddRemoteQueryNode stmts queryString t env else stmts)"
      then have "y \<in> set stmts \<or> (\<exists>step. y = T_RemoteQuery step)"
        by (auto dest: set_AddRemoteQueryNode split: if_splits)
      then show "Pr (standard_ProcessUtility y queryString False None env)"
      proof
        assume "y \<in> set stmts"
        then have "size y < size x"
          using size_in_list [of y stmts] that by simp
        then show ?thesis by (rule sub)
      next
        assume "\<exists>step. y = T_RemoteQuery step"
        then show ?thesis by (auto intro: leaf)
      qed
    qed
    have pre: "Pr (check_xact_readonly x env)" "Pr (clear_tag ct)"
      using guard clear ct by auto
    show ?thesis
    proof (cases x rule: recursive_branch_cases)
      case (1 stmts)
      then have "Pr (CreateStmt_foreach
                  (if PGXC env \<and> top'
                   then AddRemoteQueryNode stmts queryString EXEC_ON_ALL_NODES env else stmts)
                  queryString env)"
        by (intro foreach_closed(1) [of Pr, OF block steps] elems) simp_all
      with 1 pre show ?thesis
        by (auto simp: standard_ProcessUtility_CreateStmt_block intro!: block)
    next
      case (2 stmts)
      then have "Pr (CreateStmt_foreach
                  (if PGXC env \<and> top'
                   then AddRemoteQueryNode stmts queryString EXEC_ON_ALL_NODES env else stmts)
                  queryString env)"
        by (intro foreach_closed(1) [of Pr, OF block steps] elems) simp_all
      with 2 pre show ?thesis
        by (auto simp: standard_ProcessUtility_CreateForeignTableStmt_block intro!: block)
    next
      case (3 relkind relation stmts)
      then have "Pr (AlterTableStmt_foreach
                  (if PGXC env \<and> top'
                   then AddRemoteQueryNode stmts queryString
                          (relation_remoteExecType relkind relation env) env
                   else stmts)
                  queryString env)"
        by (intro foreach_closed(2) [of Pr, OF block steps] elems) simp_all
      with 3 pre show ?thesis
        by (auto simp: standard_ProcessUtility_AlterTableStmt_block intro!: block)
    next
      case 4
      then show ?thesis using ct by (rule leaf)
    qed
  qed
  have none: "Pr (standard_ProcessUtility x queryString top' None env)" for x top'
  proof (induction x arbitrary: top' rule: measure_induct_rule [of size])
    case (less x)
    show ?case
      by (rule rec) (auto intro: less.IH)
  qed
  show ?thesis
    by (rule rec) (auto intro: none)
qed

subsection \<open>Sub-statements do not touch the caller's buffers\<close>

lemma indep_clear_tag [simp]: "indep (clear_tag None)"
  by (simp add: indep_def clear_tag_def clear_completionTag_def)

lemma indep_standard_ProcessUtility:
  "indep (standard_ProcessUtility parsetree queryString isTopLevel None env)"
  by (rule dispatch_closed) (simp_all add: indep_switch)

lemma indep_foreach:
  "indep (CreateStmt_foreach l queryString env)"
  "indep (AlterTableStmt_foreach l queryString env)"
  by (rule foreach_closed; simp add: indep_standard_ProcessUtility)+

subsection \<open>Single branches\<close>

lemmas not_recursive_defs = recursive_branch_def IsA_CreateStmt_def IsA_CreateForeignTableStmt_def
  IsA_AlterTableStmt_def

lemma clear_completionTag_report: "clear_completionTag completionTag st = report completionTag [] st"
  by (simp add: clear_completionTag_def report_def)

lemma standard_ProcessUtility_refused:
  "XactReadOnly env \<Longrightarrow> readonly_denied parsetree \<Longrightarrow>
   standard_ProcessUtility parsetree queryString isTopLevel completionTag env st =
     check_xact_readonly parsetree env st"
  by (cases parsetree rule: recursive_branch_cases)
     (simp_all add: standard_ProcessUtility_leaf standard_ProcessUtility_CreateStmt
        standard_ProcessUtility_CreateForeignTableStmt standard_ProcessUtility_AlterTableStmt
        check_xact_readonly_cases)

lemma standard_ProcessUtility_TransactionStmt:
  "standard_ProcessUtility (T_TransactionStmt kind options gid) queryString isTopLevel completionTag env st =
     TransactionStmt_switch kind options gid isTopLevel completionTag env
       (clear_completionTag completionTag st)"
  by (simp add: standard_ProcessUtility_leaf not_recursive_defs check_xact_readonly_cases
        readonly_denied_def standard_ProcessUtility_switch_def)

subsection \<open>COMMIT reports its failure in the completion tag\<close>

text \<open>
  Claim C2.  A COMMIT statement dispatched with a completion-tag buffer never raises an
  error: it ends the transaction block, and the buffer holds \<open>ROLLBACK\<close> when
  \<^verbatim>\<open>EndTransactionBlock\<close> reported failure and the empty string when it reported
  success.
\<close>

theorem commit_failure_reported_in_tag:
  "standard_ProcessUtility (T_TransactionStmt TRANS_STMT_COMMIT options gid) queryString
       isTopLevel (Some p) env st =
     (None,
      st\<lparr>blockState := Idle,
         mem := (mem st)(p := if EndTransactionBlock_result env then [] else ''ROLLBACK''),
         trace := trace st @ [Called ''EndTransactionBlock'' (if PGXC env then [''true''] else [])]\<rparr>)"
  by (simp add: standard_ProcessUtility_TransactionStmt TransactionStmt_switch_def
        clear_completionTag_def proc_defs block_simps)

theorem commit_failure_reported_in_tag_witness:
  "standard_ProcessUtility (T_TransactionStmt TRANS_STMT_COMMIT [] []) ''COMMIT'' True (Some 0)
       (coordinator_env\<lparr>EndTransactionBlock_result := False\<rparr>) (idle_state\<lparr>blockState := InBlock\<rparr>) =
     (None,
      \<lparr>blockState = Idle, mem = (\<lambda>p. ''SELECT 1'')(0 := ''ROLLBACK''),
       trace = [Called ''EndTransactionBlock'' [''true'']]\<rparr>)"
  using commit_failure_reported_in_tag
    [of "[]" "[]" "''COMMIT''" True 0 "coordinator_env\<lparr>EndTransactionBlock_result := False\<rparr>"
        "idle_state\<lparr>blockState := InBlock\<rparr>"]
  by (simp add: coordinator_env_def idle_state_def)

subsection \<open>The recovery guard\<close>

text \<open>
  Claim C7.  While recovery is in progress, NOTIFY fails with the error "cannot execute
  NOTIFY during recovery"; CHECKPOINT, issued by a superuser, succeeds and requests a
  checkpoint with the flags IMMEDIATE and WAIT only (a restartpoint request), whereas
  outside recovery the request also carries FORCE.
\<close>

theorem recovery_notify_fails_checkpoint_restartpoint:
  "(RecoveryInProgress env \<longrightarrow>
      standard_ProcessUtility T_NotifyStmt queryString isTopLevel completionTag env st =
        (Some (ereport_error ERRCODE_READ_ONLY_SQL_TRANSACTION
                 ''cannot execute NOTIFY during recovery'' []),
         report completionTag [] st)) \<and>
   (superuser env \<longrightarrow>
      standard_ProcessUtility T_CheckPointStmt queryString isTopLevel completionTag env st =
        (None,
         (report completionTag [] st)
           \<lparr>trace := trace st @
              Checkpoint (if RecoveryInProgress env
                          then {CHECKPOINT_IMMEDIATE, CHECKPOINT_WAIT}
                          else {CHECKPOINT_IMMEDIATE, CHECKPOINT_WAIT, CHECKPOINT_FORCE}) #
              (if PGXC env \<and> IS_PGXC_COORDINATOR env \<and> \<not> IsConnFromCoord env
               then [Remote \<lparr>combine_type = COMBINE_TYPE_SAME, exec_nodes = None,
                             sql_statement = queryString, force_autocommit = True,
                             exec_type = EXEC_ON_DATANODES\<rparr>]
               else [])\<rparr>))"
  by (auto simp add: standard_ProcessUtility_leaf not_recursive_defs check_xact_readonly_cases
        readonly_denied_def standard_ProcessUtility_switch_def
        clear_completionTag_report report_def proc_defs block_simps insert_commute
        split: option.split)

theorem recovery_notify_fails_checkpoint_restartpoint_witness:
  "RecoveryInProgress (coordinator_env\<lparr>RecoveryInProgress := True\<rparr>) \<and>
   superuser (coordinator_env\<lparr>RecoveryInProgress := True\<rparr>) \<and>
   standard_ProcessUtility T_NotifyStmt ''NOTIFY c'' True None
       (coordinator_env\<lparr>RecoveryInProgress := True\<rparr>) idle_state =
     (Some (ereport_error ERRCODE_READ_ONLY_SQL_TRANSACTION
              ''cannot execute NOTIFY during recovery'' []),
      idle_state) \<and>
   standard_ProcessUtility T_CheckPointStmt ''CHECKPOINT'' True None
       (coordinator_env\<lparr>RecoveryInProgress := True\<rparr>) idle_state =
     (None,
      idle_state\<lparr>trace := [Checkpoint {CHECKPOINT_IMMEDIATE, CHECKPOINT_WAIT},
         Remote \<lparr>combine_type = COMBINE_TYPE_SAME, exec_nodes = None,
                 sql_statement = ''CHECKPOINT'', force_autocommit = True,
                 exec_type = EXEC_ON_DATANODES\<rparr>]\<rparr>)"
  using recovery_notify_fails_checkpoint_restartpoint
    [of "coordinator_env\<lparr>RecoveryInProgress := True\<rparr>" "''NOTIFY c''" True None idle_state]
    recovery_notify_fails_checkpoint_restartpoint
    [of "coordinator_env\<lparr>RecoveryInProgress := True\<rparr>" "''CHECKPOINT''" True None idle_state]
  by (simp add: coordinator_env_def idle_state_def report_def insert_commute)

subsection \<open>The read-only guard\<close>

text \<open>
  Claim C3.  In a read-only transaction, the dispatch of a command whose node tag is on
  the list of \<^verbatim>\<open>check_xact_readonly\<close> raises the read-only-violation error whose
  message names the command by its command tag, and changes nothing; a command that is
  not on the list passes the guard.
\<close>

theorem read_only_guard_refuses_denied_commands:
  "(XactReadOnly env \<and> readonly_denied parsetree \<longrightarrow>
      (\<exists>tag. CreateCommandTag (PGXC env) parsetree = Some tag \<and>
         standard_ProcessUtility parsetree queryString isTopLevel completionTag env st =
           (Some (ereport_error ERRCODE_READ_ONLY_SQL_TRANSACTION
                    (''cannot execute '' @ tag @ '' in a read-only transaction'') []),
            st))) \<and>
   (\<not> readonly_denied parsetree \<longrightarrow> check_xact_readonly parsetree env st = (None, st))"
proof (intro conjI impI)
  assume h: "XactReadOnly env \<and> readonly_denied parsetree"
  then obtain tag where tag: "CreateCommandTag (PGXC env) parsetree = Some tag"
    using CreateCommandTag_denied by blast
  with h show "\<exists>tag. CreateCommandTag (PGXC env) parsetree = Some tag \<and>
         standard_ProcessUtility parsetree queryString isTopLevel completionTag env st =
           (Some (ereport_error ERRCODE_READ_ONLY_SQL_TRANSACTION
                    (''cannot execute '' @ tag @ '' in a read-only transaction'') []),
            st)"
    by (simp add: standard_ProcessUtility_refused check_xact_readonly_cases)
next
  assume "\<not> readonly_denied parsetree"
  then show "check_xact_readonly parsetree env st = (None, st)"
    by (simp add: check_xact_readonly_cases)
qed

theorem read_only_guard_refuses_denied_commands_witness:
  "XactReadOnly (coordinator_env\<lparr>XactReadOnly := True\<rparr>) \<and>
   readonly_denied (T_DropStmt OBJECT_TABLE) \<and>
   standard_ProcessUtility (T_DropStmt OBJECT_TABLE) ''DROP TABLE t'' True (Some 0)
       (coordinator_env\<lparr>XactReadOnly := True\<rparr>) idle_state =
     (Some (ereport_error ERRCODE_READ_ONLY_SQL_TRANSACTION
              ''cannot execute DROP TABLE in a read-only transaction'' []),
      idle_state) \<and>
   \<not> readonly_denied T_ExplainStmt \<and>
   check_xact_readonly T_ExplainStmt (coordinator_env\<lparr>XactReadOnly := True\<rparr>) idle_state =
     (None, idle_state)"
  using read_only_guard_refuses_denied_commands
    [of "coordinator_env\<lparr>XactReadOnly := True\<rparr>" "T_DropStmt OBJECT_TABLE" "''DROP TABLE t''"
        True "Some 0" idle_state]
    read_only_guard_refuses_denied_commands
    [of "coordinator_env\<lparr>XactReadOnly := True\<rparr>" T_ExplainStmt "''EXPLAIN SELECT 1''"
        True "Some 0" idle_state]
  by (simp add: coordinator_env_def readonly_denied_def CreateCommandTag.simps)

subsection \<open>A relayed statement is not propagated again\<close>

lemma remote_steps_simps [simp]:
  "remote_steps [] = []"
  "remote_steps (tr @ tr') = remote_steps tr @ remote_steps tr'"
  "remote_steps (Called name args # tr) = remote_steps tr"
  "remote_steps (CCI # tr) = remote_steps tr"
  "remote_steps (Checkpoint flags # tr) = remote_steps tr"
  "remote_steps (Remote step # tr) = step # remote_steps tr"
  by (simp_all add: remote_steps_def)

lemma no_remote_prims [simp]:
  "no_remote skip" "no_remote (throw e)" "no_remote (ereport_ERROR c msg d)"
  "no_remote (elog_ERROR msg)" "no_remote (Assert b)" "no_remote (call name args)"
  "no_remote CommandCounterIncrement" "no_remote (RequestCheckpoint flags)"
  "no_remote (not_supported msg)" "no_remote (strcpy p s)" "no_remote (snprintf p n s)"
  "no_remote (PreventCommandIfReadOnly cmdname env)"
  "no_remote (PreventCommandDuringRecovery cmdname env)"
  "no_remote (CheckRestrictedOperation cmdname env)"
  "no_remote (RequireTransactionChain isTopLevel cmdname)"
  "no_remote (PreventTransactionChain isTopLevel cmdname)" "no_remote BeginTransactionBlock"
  "no_remote (EndTransactionBlock args)" "no_remote UserAbortTransactionBlock"
  "no_remote (PrepareTransactionBlock gid)" "no_remote (FinishPreparedTransaction gid b)"
  "no_remote (DefineSavepoint name)" "no_remote (ReleaseSavepoint options)"
  "no_remote (RollbackToSavepoint options)" "no_remote (report_ROLLBACK completionTag)"
  "no_remote (check_xact_readonly parsetree env)" "no_remote (clear_tag completionTag)"
  "no_remote (call_with_completionTag name args completionTag env)"
  by (simp_all add: no_remote_def proc_defs check_xact_readonly_cases clear_tag_def
        clear_completionTag_def call_with_completionTag_def split: option.split)

lemma no_remote_ExecUtilityStmtOnNodes [simp]:
  "IsConnFromCoord env \<Longrightarrow> no_remote (ExecUtilityStmtOnNodes q nodes fa et env)"
  by (simp add: no_remote_def proc_defs)

lemma no_remote_if [simp]:
  "no_remote (if b then p else q) = ((b \<longrightarrow> no_remote p) \<and> (\<not> b \<longrightarrow> no_remote q))"
  by simp

lemma no_remote_cond [simp]: "no_remote (cond b p) = (b \<longrightarrow> no_remote p)"
  by (simp add: cond_def)

lemma no_remote_ifdef [simp]: "no_remote (ifdef_PGXC env p) = (PGXC env \<longrightarrow> no_remote p)"
  by (simp add: ifdef_PGXC_def)

lemma no_remote_block [simp]: "(\<forall>p\<in>set ps. no_remote p) \<Longrightarrow> no_remote (block ps)"
proof (induction ps)
  case Nil
  show ?case by (simp add: no_remote_def block_simps)
next
  case (Cons p ps)
  then have p: "no_remote p" and ps: "no_remote (block ps)" by simp_all
  show ?case
    unfolding no_remote_def
  proof (intro allI)
    fix st
    show "remote_steps (trace (snd (block (p # ps) st))) = remote_steps (trace st)"
      using p [unfolded no_remote_def, rule_format, of st]
        ps [unfolded no_remote_def, rule_format, of "snd (p st)"]
      by (cases "p st") (auto simp: block_simps split: option.splits)
  qed
qed

lemma no_remote_tables [simp]: "no_remote CreateStmt_table" "no_remote CreateStmt_foreign_table"
  by (simp_all add: CreateStmt_table_def CreateStmt_foreign_table_def)

lemma no_remote_block_map [simp]: "\<forall>x. no_remote (f x) \<Longrightarrow> no_remote (block (map f xs))"
  by (rule no_remote_block) simp

lemma no_remote_state_cond [simp]:
  "no_remote p \<Longrightarrow> no_remote (\<lambda>st. cond (c st) p st)"
  by (simp add: no_remote_def cond_def skip_def)

lemma no_remote_switch:
  assumes "IsConnFromCoord env"
  shows "no_remote (standard_ProcessUtility_switch parsetree queryString isTopLevel completionTag env)"
  unfolding standard_ProcessUtility_switch_def TransactionStmt_switch_def Let_def
  using assms
  by (cases parsetree)
     (simp_all split: TransactionStmtKind.split ObjectType.split option.split sum.split)

lemma no_remote_standard_ProcessUtility:
  "IsConnFromCoord env \<Longrightarrow>
     no_remote (standard_ProcessUtility parsetree queryString isTopLevel completionTag env)"
  by (rule dispatch_closed) (simp_all add: no_remote_switch)

lemma standard_ProcessUtility_DropStmt:
  "\<not> XactReadOnly env \<Longrightarrow>
   standard_ProcessUtility (T_DropStmt removeType) queryString isTopLevel completionTag env st =
     standard_ProcessUtility_switch (T_DropStmt removeType) queryString isTopLevel completionTag env
       (report completionTag [] st)"
  by (simp add: standard_ProcessUtility_leaf not_recursive_defs check_xact_readonly_cases
        clear_completionTag_report)

text \<open>
  Claim C6.  On a coordinator of the clustered build that got the statement from a
  client (and, DROP being on the read-only list, outside a read-only transaction), a
  DROP of a sequence or a view is handed to the transport once, for the coordinators
  only, and a DROP of a table or of any other kind the branch knows is handed to it
  once, for all nodes.  When the connection comes from a coordinator, no dispatch of
  any command hands anything to the transport, and \<^verbatim>\<open>ExecUtilityStmtOnNodes\<close>
  does nothing.
\<close>

theorem drop_routing_and_no_propagation_of_relays:
  "(PGXC env \<and> IS_PGXC_COORDINATOR env \<and> \<not> IsConnFromCoord env \<and> \<not> XactReadOnly env \<longrightarrow>
      (removeType \<in> {OBJECT_SEQUENCE, OBJECT_VIEW} \<longrightarrow>
         fst (standard_ProcessUtility (T_DropStmt removeType) queryString isTopLevel completionTag env st) = None \<and>
         remote_steps (trace (snd (standard_ProcessUtility (T_DropStmt removeType) queryString
             isTopLevel completionTag env st))) =
           remote_steps (trace st) @
             [\<lparr>combine_type = COMBINE_TYPE_SAME, exec_nodes = None, sql_statement = queryString,
               force_autocommit = False, exec_type = EXEC_ON_COORDS\<rparr>]) \<and>
      (removeType \<in> {OBJECT_TABLE, OBJECT_INDEX, OBJECT_FOREIGN_TABLE, OBJECT_TYPE, OBJECT_DOMAIN,
           OBJECT_COLLATION, OBJECT_CONVERSION, OBJECT_SCHEMA, OBJECT_TSPARSER,
           OBJECT_TSDICTIONARY, OBJECT_TSTEMPLATE, OBJECT_TSCONFIGURATION, OBJECT_EXTENSION} \<longrightarrow>
         fst (standard_ProcessUtility (T_DropStmt removeType) queryString isTopLevel completionTag env st) = None \<and>
         remote_steps (trace (snd (standard_ProcessUtility (T_DropStmt removeType) queryString
             isTopLevel completionTag env st))) =
           remote_steps (trace st) @
             [\<lparr>combine_type = COMBINE_TYPE_SAME, exec_nodes = None, sql_statement = queryString,
               force_autocommit = False, exec_type = EXEC_ON_ALL_NODES\<rparr>])) \<and>
   (IsConnFromCoord env \<longrightarrow>
      remote_steps (trace (snd (standard_ProcessUtility parsetree queryString isTopLevel
          completionTag env st))) = remote_steps (trace st) \<and>
      ExecUtilityStmtOnNodes queryString nodes force_autocommit' exec_type' env st = (None, st))"
proof (intro conjI impI)
  assume "IsConnFromCoord env"
  then show "remote_steps (trace (snd (standard_ProcessUtility parsetree queryString isTopLevel
          completionTag env st))) = remote_steps (trace st)"
    using no_remote_standard_ProcessUtility [of env parsetree queryString isTopLevel completionTag]
    by (simp add: no_remote_def)
next
  assume "IsConnFromCoord env"
  then show "ExecUtilityStmtOnNodes queryString nodes force_autocommit' exec_type' env st = (None, st)"
    by (simp add: proc_defs)
qed (auto simp add: standard_ProcessUtility_DropStmt standard_ProcessUtility_switch_def
       report_def proc_defs block_simps split: option.split)

theorem drop_routing_and_no_propagation_of_relays_witness:
  "PGXC coordinator_env \<and> IS_PGXC_COORDINATOR coordinator_env \<and>
   \<not> IsConnFromCoord coordinator_env \<and> \<not> XactReadOnly coordinator_env \<and>
   OBJECT_VIEW \<in> {OBJECT_SEQUENCE, OBJECT_VIEW} \<and>
   fst (standard_ProcessUtility (T_DropStmt OBJECT_VIEW) ''DROP VIEW v'' True None
          coordinator_env idle_state) = None \<and>
   remote_steps (trace (snd (standard_ProcessUtility (T_DropStmt OBJECT_VIEW) ''DROP VIEW v'' True
          None coordinator_env idle_state))) =
     [\<lparr>combine_type = COMBINE_TYPE_SAME, exec_nodes = None, sql_statement = ''DROP VIEW v'',
       force_autocommit = False, exec_type = EXEC_ON_COORDS\<rparr>] \<and>
   IsConnFromCoord (coordinator_env\<lparr>IsConnFromCoord := True\<rparr>) \<and>
   remote_steps (trace (snd (standard_ProcessUtility (T_DropStmt OBJECT_TABLE) ''DROP TABLE t'' True
          None (coordinator_env\<lparr>IsConnFromCoord := True\<rparr>) idle_state))) = []"
  using drop_routing_and_no_propagation_of_relays
    [of coordinator_env OBJECT_VIEW "''DROP VIEW v''" True None idle_state]
    drop_routing_and_no_propagation_of_relays
    [of "coordinator_env\<lparr>IsConnFromCoord := True\<rparr>" OBJECT_VIEW "''DROP TABLE t''" True None
        idle_state "T_DropStmt OBJECT_TABLE"]
  by (simp add: coordinator_env_def idle_state_def)

subsection \<open>What a completion-tag buffer changes\<close>

lemma taggedD:
  assumes "tagged p T f g"
  obtains M' where "M' = M \<or> (\<exists>t\<in>T. M' = M(p := t))"
    and "f (st\<lparr>mem := M\<rparr>) = (fst (g st), (snd (g st))\<lparr>mem := M'\<rparr>)"
  using assms unfolding tagged_def by blast

lemma taggedI:
  assumes "\<And>st M. \<exists>M'. (M' = M \<or> (\<exists>t\<in>T. M' = M(p := t))) \<and>
     f (st\<lparr>mem := M\<rparr>) = (fst (g st), (snd (g st))\<lparr>mem := M'\<rparr>)"
  shows "tagged p T f g"
  unfolding tagged_def
proof (intro allI)
  fix st M
  from assms [of M st] obtain M' where "M' = M \<or> (\<exists>t\<in>T. M' = M(p := t))"
    and "f (st\<lparr>mem := M\<rparr>) = (fst (g st), (snd (g st))\<lparr>mem := M'\<rparr>)"
    by blast
  then show "\<exists>M'\<in>insert M ((\<lambda>t. M(p := t)) ` T).
      f (st\<lparr>mem := M\<rparr>) = (fst (g st), (snd (g st))\<lparr>mem := M'\<rparr>)"
    by blast
qed

lemma tagged_indep: "indep f \<Longrightarrow> tagged p T f f"
  by (rule taggedI) (blast dest: indepD)

lemma tagged_block_Nil: "tagged p T (block []) (block [])"
  by (rule tagged_indep) simp

lemma tagged_block_Cons:
  assumes a: "tagged p T f g" and b: "tagged p T (block fs) (block gs)"
  shows "tagged p T (block (f # fs)) (block (g # gs))"
proof (rule taggedI)
  fix st M
  from a obtain M' where M': "M' = M \<or> (\<exists>t\<in>T. M' = M(p := t))"
    and f: "f (st\<lparr>mem := M\<rparr>) = (fst (g st), (snd (g st))\<lparr>mem := M'\<rparr>)"
    by (rule taggedD)
  obtain x s where g: "g st = (x, s)" by (cases "g st")
  show "\<exists>M'. (M' = M \<or> (\<exists>t\<in>T. M' = M(p := t))) \<and>
     block (f # fs) (st\<lparr>mem := M\<rparr>) =
       (fst (block (g # gs) st), (snd (block (g # gs) st))\<lparr>mem := M'\<rparr>)"
  proof (cases x)
    case (Some e)
    with f g have "block (f # fs) (st\<lparr>mem := M\<rparr>) =
       (fst (block (g # gs) st), (snd (block (g # gs) st))\<lparr>mem := M'\<rparr>)"
      by (simp add: block_simps)
    with M' show ?thesis by blast
  next
    case None
    from b obtain M'' where M'': "M'' = M' \<or> (\<exists>t\<in>T. M'' = M'(p := t))"
      and fs: "block fs (s\<lparr>mem := M'\<rparr>) = (fst (block gs s), (snd (block gs s))\<lparr>mem := M''\<rparr>)"
      by (rule taggedD)
    from None f g fs have "block (f # fs) (st\<lparr>mem := M\<rparr>) =
       (fst (block (g # gs) st), (snd (block (g # gs) st))\<lparr>mem := M''\<rparr>)"
      by (simp add: block_simps)
    moreover from M' M'' have "M'' = M \<or> (\<exists>t\<in>T. M'' = M(p := t))"
      by auto
    ultimately show ?thesis by blast
  qed
qed

lemma tagged_cond: "(b \<Longrightarrow> tagged p T f g) \<Longrightarrow> tagged p T (cond b f) (cond b g)"
  by (cases b) (simp_all add: cond_def tagged_indep)

lemma tagged_if:
  "(b \<Longrightarrow> tagged p T f g) \<Longrightarrow> (\<not> b \<Longrightarrow> tagged p T f' g') \<Longrightarrow>
   tagged p T (if b then f else f') (if b then g else g')"
  by simp

lemma tagged_report_ROLLBACK:
  "''ROLLBACK'' \<in> T \<Longrightarrow> tagged p T (report_ROLLBACK (Some p)) (report_ROLLBACK None)"
  by (rule taggedI) (auto simp add: report_ROLLBACK_def strcpy_def skip_def)

lemma tagged_snprintf:
  "take (n - 1) s \<in> T \<Longrightarrow> tagged p T (snprintf p n s) skip"
  by (rule taggedI) (auto simp add: snprintf_def skip_def)

lemma indep_call_without_completionTag:
  "indep (call_with_completionTag name args None env)"
  by (simp add: indep_def call_with_completionTag_def)

lemma tagged_call_with_completionTag:
  "tagged p (tag_writes env) (call_with_completionTag name args (Some p) env)
     (call_with_completionTag name args None env)"
proof (cases "completionTag_written env name")
  case None
  then have "call_with_completionTag name args (Some p) env =
      call_with_completionTag name args None env"
    by (intro ext) (simp add: call_with_completionTag_def)
  then show ?thesis
    by (simp only: tagged_indep [OF indep_call_without_completionTag])
next
  case (Some s)
  then have s: "s \<in> tag_writes env"
    by (simp add: tag_writes_def ran_def) blast
  show ?thesis
    unfolding tagged_def
  proof (intro allI)
    fix st M
    from Some
    have "call_with_completionTag name args (Some p) env (st\<lparr>mem := M\<rparr>) =
        (fst (call_with_completionTag name args None env st),
         (snd (call_with_completionTag name args None env st))\<lparr>mem := M(p := s)\<rparr>)"
      by (simp add: call_with_completionTag_def)
    with s
    show "\<exists>M'\<in>insert M ((\<lambda>t. M(p := t)) ` tag_writes env).
        call_with_completionTag name args (Some p) env (st\<lparr>mem := M\<rparr>) =
          (fst (call_with_completionTag name args None env st),
           (snd (call_with_completionTag name args None env st))\<lparr>mem := M'\<rparr>)"
      by blast
  qed
qed

lemma switch_without_tag:
  "(case parsetree of
      T_TransactionStmt kind options gid \<Rightarrow> False
    | T_CopyStmt \<Rightarrow> False
    | T_FetchStmt ismove portalname \<Rightarrow> False
    | T_ExecuteStmt into name \<Rightarrow> False
    | T_BarrierStmt barrier_id \<Rightarrow> False
    | _ \<Rightarrow> True) \<Longrightarrow>
   standard_ProcessUtility_switch parsetree queryString isTopLevel completionTag env =
     standard_ProcessUtility_switch parsetree queryString isTopLevel None env"
  by (cases parsetree) (simp_all add: standard_ProcessUtility_switch_def)

lemma TransactionStmt_switch_without_tag:
  "kind \<noteq> TRANS_STMT_COMMIT \<Longrightarrow> kind \<noteq> TRANS_STMT_PREPARE \<Longrightarrow>
   TransactionStmt_switch kind options gid isTopLevel completionTag env =
     TransactionStmt_switch kind options gid isTopLevel None env"
  by (cases kind) (simp_all add: TransactionStmt_switch_def)

lemma switch_TransactionStmt:
  "standard_ProcessUtility_switch (T_TransactionStmt kind options gid) queryString isTopLevel
     completionTag env =
   TransactionStmt_switch kind options gid isTopLevel completionTag env"
  by (simp add: standard_ProcessUtility_switch_def)

lemma indep_TransactionStmt_switch:
  "indep (TransactionStmt_switch kind options gid isTopLevel None env)"
  using indep_switch [of "T_TransactionStmt kind options gid" "[]" isTopLevel env]
  by (simp only: switch_TransactionStmt)

lemma indep_xact [simp]:
  "indep (EndTransactionBlock args)" "indep (PrepareTransactionBlock gid)"
  "indep (PreventCommandDuringRecovery cmdname env)"
  by (simp_all add: indep_def EndTransactionBlock_def PrepareTransactionBlock_def
        PreventCommandDuringRecovery_def proc_defs)

lemma tagged_COMMIT:
  "tagged p (tag_writes env)
     (TransactionStmt_switch TRANS_STMT_COMMIT options gid isTopLevel (Some p) env)
     (TransactionStmt_switch TRANS_STMT_COMMIT options gid isTopLevel None env)"
  unfolding TransactionStmt_switch_def Let_def TransactionStmtKind.case
  by (intro tagged_block_Cons tagged_block_Nil tagged_cond tagged_report_ROLLBACK tagged_indep;
      simp add: tag_writes_def)

lemma tagged_PREPARE:
  "tagged p (tag_writes env)
     (TransactionStmt_switch TRANS_STMT_PREPARE options gid isTopLevel (Some p) env)
     (TransactionStmt_switch TRANS_STMT_PREPARE options gid isTopLevel None env)"
  unfolding TransactionStmt_switch_def Let_def TransactionStmtKind.case
  by (intro tagged_block_Cons tagged_block_Nil tagged_if tagged_cond tagged_report_ROLLBACK
        tagged_indep;
      simp add: tag_writes_def)

lemma tagged_COPY:
  "tagged p (tag_writes env)
     (standard_ProcessUtility_switch T_CopyStmt queryString isTopLevel (Some p) env)
     (standard_ProcessUtility_switch T_CopyStmt queryString isTopLevel None env)"
  by (simp add: standard_ProcessUtility_switch_def)
     (intro tagged_block_Cons tagged_block_Nil tagged_snprintf tagged_indep;
      simp add: tag_writes_def)

lemma tagged_FETCH:
  "tagged p (tag_writes env)
     (standard_ProcessUtility_switch (T_FetchStmt ismove portalname) queryString isTopLevel
        (Some p) env)
     (standard_ProcessUtility_switch (T_FetchStmt ismove portalname) queryString isTopLevel
        None env)"
  by (simp add: standard_ProcessUtility_switch_def tagged_call_with_completionTag)

lemma tagged_EXECUTE:
  "tagged p (tag_writes env)
     (standard_ProcessUtility_switch (T_ExecuteStmt into name) queryString isTopLevel (Some p) env)
     (standard_ProcessUtility_switch (T_ExecuteStmt into name) queryString isTopLevel None env)"
  by (simp add: standard_ProcessUtility_switch_def)
     (intro tagged_block_Cons tagged_block_Nil tagged_call_with_completionTag tagged_indep;
      simp)

lemma tagged_BARRIER:
  "tagged p (tag_writes env)
     (standard_ProcessUtility_switch (T_BarrierStmt barrier_id) queryString isTopLevel (Some p) env)
     (standard_ProcessUtility_switch (T_BarrierStmt barrier_id) queryString isTopLevel None env)"
  by (cases "PGXC env")
     (simp_all add: standard_ProcessUtility_switch_def tagged_call_with_completionTag
        tagged_indep)

lemma tagged_TransactionStmt:
  "tagged p (tag_writes env)
     (TransactionStmt_switch kind options gid isTopLevel (Some p) env)
     (TransactionStmt_switch kind options gid isTopLevel None env)"
proof -
  consider "kind = TRANS_STMT_COMMIT" | "kind = TRANS_STMT_PREPARE"
    | "kind \<noteq> TRANS_STMT_COMMIT" "kind \<noteq> TRANS_STMT_PREPARE"
    by blast
  then show ?thesis
  proof cases
    case 1
    then show ?thesis by (simp only: tagged_COMMIT)
  next
    case 2
    then show ?thesis by (simp only: tagged_PREPARE)
  next
    case 3
    from TransactionStmt_switch_without_tag [OF 3]
    have "TransactionStmt_switch kind options gid isTopLevel (Some p) env =
        TransactionStmt_switch kind options gid isTopLevel None env" .
    then show ?thesis
      by (simp only: tagged_indep [OF indep_TransactionStmt_switch])
  qed
qed

lemma tagged_switch:
  "tagged p (tag_writes env)
     (standard_ProcessUtility_switch parsetree queryString isTopLevel (Some p) env)
     (standard_ProcessUtility_switch parsetree queryString isTopLevel None env)"
proof -
  consider (xact) kind options gid where "parsetree = T_TransactionStmt kind options gid"
    | (copy) "parsetree = T_CopyStmt"
    | (fetch) ismove portalname where "parsetree = T_FetchStmt ismove portalname"
    | (execute) into name where "parsetree = T_ExecuteStmt into name"
    | (barrier) barrier_id where "parsetree = T_BarrierStmt barrier_id"
    | (other) "case parsetree of
          T_TransactionStmt kind options gid \<Rightarrow> False
        | T_CopyStmt \<Rightarrow> False
        | T_FetchStmt ismove portalname \<Rightarrow> False
        | T_ExecuteStmt into name \<Rightarrow> False
        | T_BarrierStmt barrier_id \<Rightarrow> False
        | _ \<Rightarrow> True"
    by (cases parsetree) simp_all
  then show ?thesis
  proof cases
    case xact
    then show ?thesis by (simp only: switch_TransactionStmt tagged_TransactionStmt)
  next
    case copy
    then show ?thesis by (simp only: tagged_COPY)
  next
    case fetch
    then show ?thesis by (simp only: tagged_FETCH)
  next
    case execute
    then show ?thesis by (simp only: tagged_EXECUTE)
  next
    case barrier
    then show ?thesis by (simp only: tagged_BARRIER)
  next
    case other
    from switch_without_tag [OF other]
    have "standard_ProcessUtility_switch parsetree queryString isTopLevel (Some p) env =
        standard_ProcessUtility_switch parsetree queryString isTopLevel None env" .
    then show ?thesis
      by (simp only: tagged_indep [OF indep_switch])
  qed
qed

lemma guard_passes:
  "\<not> (XactReadOnly env \<and> readonly_denied parsetree) \<Longrightarrow>
   check_xact_readonly parsetree env st = (None, st)"
  by (simp add: check_xact_readonly_cases)

lemma dispatch_with_buffer:
  assumes "\<not> (XactReadOnly env \<and> readonly_denied parsetree)"
  shows "\<exists>t\<in>insert [] (tag_writes env).
     standard_ProcessUtility parsetree queryString isTopLevel (Some p) env st =
       (fst (standard_ProcessUtility parsetree queryString isTopLevel None env st),
        (snd (standard_ProcessUtility parsetree queryString isTopLevel None env st))
          \<lparr>mem := (mem st)(p := t)\<rparr>)"
proof -
  have loop: ?thesis
    if some: "standard_ProcessUtility parsetree queryString isTopLevel (Some p) env st =
          f (st\<lparr>mem := (mem st)(p := [])\<rparr>)"
      and none: "standard_ProcessUtility parsetree queryString isTopLevel None env st = f st"
      and f: "indep f" for f
  proof -
    from indepD [OF f, where st = st and m = "(mem st)(p := [])"] some none
    have "standard_ProcessUtility parsetree queryString isTopLevel (Some p) env st =
       (fst (standard_ProcessUtility parsetree queryString isTopLevel None env st),
        (snd (standard_ProcessUtility parsetree queryString isTopLevel None env st))
          \<lparr>mem := (mem st)(p := [])\<rparr>)"
      by simp
    then show ?thesis by blast
  qed
  show ?thesis
  proof (cases parsetree rule: recursive_branch_cases)
    case (1 stmts)
    with assms show ?thesis
      by (intro loop [OF _ _ indep_foreach(1)])
         (simp_all add: standard_ProcessUtility_CreateStmt guard_passes clear_completionTag_def)
  next
    case (2 stmts)
    with assms show ?thesis
      by (intro loop [OF _ _ indep_foreach(1)])
         (simp_all add: standard_ProcessUtility_CreateForeignTableStmt guard_passes
            clear_completionTag_def)
  next
    case (3 relkind relation stmts)
    with assms show ?thesis
      by (intro loop [OF _ _ indep_foreach(2)])
         (simp_all add: standard_ProcessUtility_AlterTableStmt guard_passes
            clear_completionTag_def)
  next
    case 4
    with assms have some: "standard_ProcessUtility parsetree queryString isTopLevel (Some p) env st =
        standard_ProcessUtility_switch parsetree queryString isTopLevel (Some p) env
          (st\<lparr>mem := (mem st)(p := [])\<rparr>)"
      and none: "standard_ProcessUtility parsetree queryString isTopLevel None env st =
        standard_ProcessUtility_switch parsetree queryString isTopLevel None env st"
      by (simp_all add: standard_ProcessUtility_leaf guard_passes clear_completionTag_def)
    from tagged_switch [of p env parsetree queryString isTopLevel]
    obtain M' where M': "M' = (mem st)(p := []) \<or> (\<exists>t\<in>tag_writes env. M' = ((mem st)(p := []))(p := t))"
      and eq: "standard_ProcessUtility_switch parsetree queryString isTopLevel (Some p) env
          (st\<lparr>mem := (mem st)(p := [])\<rparr>) =
        (fst (standard_ProcessUtility_switch parsetree queryString isTopLevel None env st),
         (snd (standard_ProcessUtility_switch parsetree queryString isTopLevel None env st))
           \<lparr>mem := M'\<rparr>)"
      by (rule taggedD)
    from M' obtain t where t: "t \<in> insert [] (tag_writes env)" and "M' = (mem st)(p := t)"
      by auto
    with eq some none have "standard_ProcessUtility parsetree queryString isTopLevel (Some p) env st =
       (fst (standard_ProcessUtility parsetree queryString isTopLevel None env st),
        (snd (standard_ProcessUtility parsetree queryString isTopLevel None env st))
          \<lparr>mem := (mem st)(p := t)\<rparr>)"
      by simp
    with t show ?thesis by blast
  qed
qed

subsection \<open>A dispatch without a completion-tag buffer\<close>

text \<open>
  Claim C9.  Every command can be dispatched with a \<^verbatim>\<open>NULL\<close> completion tag: that
  dispatch writes to no buffer at all, and it raises the same error, or none, leaves the
  same transaction state and makes the same external calls in the same order as the
  dispatch of the same command with a buffer.
\<close>

theorem null_completion_tag_changes_nothing_else:
  "fst (standard_ProcessUtility parsetree queryString isTopLevel None env st) =
     fst (standard_ProcessUtility parsetree queryString isTopLevel (Some p) env st) \<and>
   blockState (snd (standard_ProcessUtility parsetree queryString isTopLevel None env st)) =
     blockState (snd (standard_ProcessUtility parsetree queryString isTopLevel (Some p) env st)) \<and>
   trace (snd (standard_ProcessUtility parsetree queryString isTopLevel None env st)) =
     trace (snd (standard_ProcessUtility parsetree queryString isTopLevel (Some p) env st)) \<and>
   mem (snd (standard_ProcessUtility parsetree queryString isTopLevel None env st)) = mem st"
proof (cases "XactReadOnly env \<and> readonly_denied parsetree")
  case True
  then show ?thesis
    by (simp add: standard_ProcessUtility_refused check_xact_readonly_cases)
next
  case False
  from dispatch_with_buffer [OF False, of queryString isTopLevel p st]
  obtain t where
    "standard_ProcessUtility parsetree queryString isTopLevel (Some p) env st =
       (fst (standard_ProcessUtility parsetree queryString isTopLevel None env st),
        (snd (standard_ProcessUtility parsetree queryString isTopLevel None env st))
          \<lparr>mem := (mem st)(p := t)\<rparr>)"
    by blast
  then show ?thesis
    by (simp add: indep_mem [OF indep_standard_ProcessUtility])
qed

theorem null_completion_tag_changes_nothing_else_witness:
  "standard_ProcessUtility T_CopyStmt ''COPY t FROM STDIN'' True None coordinator_env idle_state =
     (None, idle_state\<lparr>trace := [Called ''DoCopy'' []]\<rparr>) \<and>
   fst (standard_ProcessUtility T_CopyStmt ''COPY t FROM STDIN'' True (Some 0) coordinator_env
          idle_state) = None \<and>
   trace (snd (standard_ProcessUtility T_CopyStmt ''COPY t FROM STDIN'' True (Some 0)
          coordinator_env idle_state)) = [Called ''DoCopy'' []] \<and>
   blockState (snd (standard_ProcessUtility T_CopyStmt ''COPY t FROM STDIN'' True (Some 0)
          coordinator_env idle_state)) = Idle"
proof -
  have "standard_ProcessUtility T_CopyStmt ''COPY t FROM STDIN'' True None coordinator_env
      idle_state = (None, idle_state\<lparr>trace := [Called ''DoCopy'' []]\<rparr>)"
    by (simp add: standard_ProcessUtility_leaf not_recursive_defs check_xact_readonly_cases
        readonly_denied_def standard_ProcessUtility_switch_def clear_completionTag_def
        proc_defs block_simps coordinator_env_def idle_state_def)
  with null_completion_tag_changes_nothing_else
    [of T_CopyStmt "''COPY t FROM STDIN''" True coordinator_env idle_state 0]
  show ?thesis
    by (simp add: idle_state_def)
qed

subsection \<open>The order of the read-only guard and the clearing of the tag\<close>

text \<open>
  A read-only session refuses CREATE ROLE, and the caller's buffer still holds what it held
  before the call: the tag has not been cleared.
\<close>

theorem guard_rejection_leaves_tag_counterexample:
  "fst (standard_ProcessUtility T_CreateRoleStmt ''CREATE ROLE r'' True (Some 0)
          (coordinator_env\<lparr>XactReadOnly := True\<rparr>) idle_state) =
     Some (ereport_error ERRCODE_READ_ONLY_SQL_TRANSACTION
             ''cannot execute CREATE ROLE in a read-only transaction'' []) \<and>
   mem (snd (standard_ProcessUtility T_CreateRoleStmt ''CREATE ROLE r'' True (Some 0)
          (coordinator_env\<lparr>XactReadOnly := True\<rparr>) idle_state)) 0 = ''SELECT 1'' \<and>
   mem (snd (standard_ProcessUtility T_CreateRoleStmt ''CREATE ROLE r'' True (Some 0)
          (coordinator_env\<lparr>XactReadOnly := True\<rparr>) idle_state)) 0 \<noteq> []"
  by (simp add: standard_ProcessUtility_refused check_xact_readonly_cases readonly_denied_def
        CreateCommandTag.simps coordinator_env_def idle_state_def)

text \<open>
  Claim C8.  The dispatcher runs the read-only guard first and clears the completion tag
  after it, before it enters the branch of the command: every dispatch is the guard, then
  the clearing of the tag, then the branch.  So when the guard refuses the command, the
  dispatch raises the error and changes nothing: the caller's buffer has not been reset
  and holds what it held before.
\<close>

theorem guard_first_then_tag_cleared:
  "(XactReadOnly env \<and> readonly_denied parsetree \<longrightarrow>
      fst (standard_ProcessUtility parsetree queryString isTopLevel completionTag env st) \<noteq> None \<and>
      snd (standard_ProcessUtility parsetree queryString isTopLevel completionTag env st) = st) \<and>
   (\<not> recursive_branch parsetree \<longrightarrow>
      standard_ProcessUtility parsetree queryString isTopLevel completionTag env =
        block [check_xact_readonly parsetree env, clear_tag completionTag,
               standard_ProcessUtility_switch parsetree queryString isTopLevel completionTag env]) \<and>
   standard_ProcessUtility (T_CreateStmt stmts) queryString isTopLevel completionTag env =
     block [check_xact_readonly (T_CreateStmt stmts) env, clear_tag completionTag,
            CreateStmt_foreach
              (if PGXC env \<and> isTopLevel
               then AddRemoteQueryNode stmts queryString EXEC_ON_ALL_NODES env else stmts)
              queryString env] \<and>
   standard_ProcessUtility (T_CreateForeignTableStmt stmts) queryString isTopLevel completionTag env =
     block [check_xact_readonly (T_CreateForeignTableStmt stmts) env, clear_tag completionTag,
            CreateStmt_foreach
              (if PGXC env \<and> isTopLevel
               then AddRemoteQueryNode stmts queryString EXEC_ON_ALL_NODES env else stmts)
              queryString env] \<and>
   standard_ProcessUtility (T_AlterTableStmt relkind relation stmts) queryString isTopLevel
       completionTag env =
     block [check_xact_readonly (T_AlterTableStmt relkind relation stmts) env,
            clear_tag completionTag,
            AlterTableStmt_foreach
              (if PGXC env \<and> isTopLevel
               then AddRemoteQueryNode stmts queryString
                      (relation_remoteExecType relkind relation env) env
               else stmts)
              queryString env]"
proof (intro conjI impI)
  assume "XactReadOnly env \<and> readonly_denied parsetree"
  then show "fst (standard_ProcessUtility parsetree queryString isTopLevel completionTag env st) \<noteq> None"
    and "snd (standard_ProcessUtility parsetree queryString isTopLevel completionTag env st) = st"
    by (simp_all add: standard_ProcessUtility_refused check_xact_readonly_cases)
next
  assume "\<not> recursive_branch parsetree"
  then show "standard_ProcessUtility parsetree queryString isTopLevel completionTag env =
        block [check_xact_readonly parsetree env, clear_tag completionTag,
               standard_ProcessUtility_switch parsetree queryString isTopLevel completionTag env]"
    by (rule standard_ProcessUtility_leaf_block)
qed (rule standard_ProcessUtility_CreateStmt_block
       standard_ProcessUtility_CreateForeignTableStmt_block
       standard_ProcessUtility_AlterTableStmt_block)+

theorem guard_first_then_tag_cleared_witness:
  "snd (standard_ProcessUtility T_CreateRoleStmt ''CREATE ROLE r'' True (Some 0)
          (coordinator_env\<lparr>XactReadOnly := True\<rparr>) idle_state) = idle_state \<and>
   mem (snd (standard_ProcessUtility T_CreateRoleStmt ''CREATE ROLE r'' True (Some 0)
          coordinator_env idle_state)) 0 = []"
proof -
  have a: "XactReadOnly (coordinator_env\<lparr>XactReadOnly := True\<rparr>) \<and>
      readonly_denied T_CreateRoleStmt"
    by (simp add: readonly_denied_def)
  have b: "\<not> recursive_branch T_CreateRoleStmt"
    by (simp add: not_recursive_defs)
  from guard_first_then_tag_cleared
      [of "coordinator_env\<lparr>XactReadOnly := True\<rparr>" T_CreateRoleStmt "''CREATE ROLE r''" True
          "Some 0" idle_state]
    a
  have "snd (standard_ProcessUtility T_CreateRoleStmt ''CREATE ROLE r'' True (Some 0)
          (coordinator_env\<lparr>XactReadOnly := True\<rparr>) idle_state) = idle_state"
    by blast
  moreover
  from guard_first_then_tag_cleared
      [of coordinator_env T_CreateRoleStmt "''CREATE ROLE r''" True "Some 0" idle_state]
    b
  have "standard_ProcessUtility T_CreateRoleStmt ''CREATE ROLE r'' True (Some 0) coordinator_env =
      block [check_xact_readonly T_CreateRoleStmt coordinator_env, clear_tag (Some 0),
             standard_ProcessUtility_switch T_CreateRoleStmt ''CREATE ROLE r'' True (Some 0)
               coordinator_env]"
    by blast
  then have "mem (snd (standard_ProcessUtility T_CreateRoleStmt ''CREATE ROLE r'' True (Some 0)
          coordinator_env idle_state)) 0 = []"
    by (simp add: block_simps check_xact_readonly_cases clear_tag_def clear_completionTag_def
          standard_ProcessUtility_switch_def proc_defs coordinator_env_def idle_state_def)
  ultimately show ?thesis
    by blast
qed

subsection \<open>The expansion of CREATE TABLE\<close>

lemma CreateStmt_table_trace:
  "CreateStmt_table st =
     (None, st\<lparr>trace := trace st @
        [Called ''DefineRelation'' [''RELKIND_RELATION''], CCI,
         Called ''transformRelOptions'' [''toast''],
         Called ''heap_reloptions'' [''RELKIND_TOASTVALUE''],
         Called ''AlterTableCreateToastTable'' []]\<rparr>)"
  by (simp add: CreateStmt_table_def call_def CommandCounterIncrement_def block_simps)

lemma CreateStmt_foreach_body_eq:
  "CreateStmt_foreach_body queryString env =
     (\<lambda>stmt. if IsA_CreateStmt stmt then CreateStmt_table
            else if IsA_CreateForeignTableStmt stmt then CreateStmt_foreign_table
            else standard_ProcessUtility stmt queryString False None env)"
  by (rule ext) (simp add: CreateStmt_foreach_body_def)

text \<open>
  Claim C5.  Outside a read-only transaction, the dispatch of a CREATE TABLE command
  clears the completion tag and then runs the elements of the expanded list in order
  with one command-counter increment between two consecutive elements and none after the
  last: an element that is a table definition runs \<^verbatim>\<open>DefineRelation\<close>, one
  command-counter increment, the two option checks and
  \<^verbatim>\<open>AlterTableCreateToastTable\<close>; a foreign-table definition runs its two calls; any
  other element re-enters the dispatcher with \<^verbatim>\<open>isTopLevel = false\<close> and no
  completion tag.  When the list is the table definition alone, the whole dispatch
  makes exactly these calls and succeeds.
\<close>

theorem create_table_expansion:
  assumes "\<not> XactReadOnly env"
  shows "standard_ProcessUtility (T_CreateStmt stmts) queryString isTopLevel completionTag env st =
       block
         (intersperse CommandCounterIncrement
            (map (\<lambda>stmt. if IsA_CreateStmt stmt then CreateStmt_table
                        else if IsA_CreateForeignTableStmt stmt then CreateStmt_foreign_table
                        else standard_ProcessUtility stmt queryString False None env)
               (if PGXC env \<and> isTopLevel
                then AddRemoteQueryNode stmts queryString EXEC_ON_ALL_NODES env else stmts)))
         (report completionTag [] st) \<and>
     CreateStmt_table st =
       (None, st\<lparr>trace := trace st @
          [Called ''DefineRelation'' [''RELKIND_RELATION''], CCI,
           Called ''transformRelOptions'' [''toast''],
           Called ''heap_reloptions'' [''RELKIND_TOASTVALUE''],
           Called ''AlterTableCreateToastTable'' []]\<rparr>) \<and>
     (\<not> (PGXC env \<and> isTopLevel) \<longrightarrow>
       standard_ProcessUtility (T_CreateStmt [T_CreateStmt sub]) queryString isTopLevel
           completionTag env st =
         (None, (report completionTag [] st)\<lparr>trace := trace st @
            [Called ''DefineRelation'' [''RELKIND_RELATION''], CCI,
             Called ''transformRelOptions'' [''toast''],
             Called ''heap_reloptions'' [''RELKIND_TOASTVALUE''],
             Called ''AlterTableCreateToastTable'' []]\<rparr>))"
proof (intro conjI impI)
  from assms
  have pass: "check_xact_readonly (T_CreateStmt l) env st = (None, st)" for l
    by (simp add: check_xact_readonly_cases)
  show "standard_ProcessUtility (T_CreateStmt stmts) queryString isTopLevel completionTag env st =
       block
         (intersperse CommandCounterIncrement
            (map (\<lambda>stmt. if IsA_CreateStmt stmt then CreateStmt_table
                        else if IsA_CreateForeignTableStmt stmt then CreateStmt_foreign_table
                        else standard_ProcessUtility stmt queryString False None env)
               (if PGXC env \<and> isTopLevel
                then AddRemoteQueryNode stmts queryString EXEC_ON_ALL_NODES env else stmts)))
         (report completionTag [] st)"
    by (simp only: standard_ProcessUtility_CreateStmt pass prod.case option.case
          CreateStmt_foreach_block CreateStmt_foreach_body_eq clear_completionTag_report)
  show "CreateStmt_table st =
       (None, st\<lparr>trace := trace st @
          [Called ''DefineRelation'' [''RELKIND_RELATION''], CCI,
           Called ''transformRelOptions'' [''toast''],
           Called ''heap_reloptions'' [''RELKIND_TOASTVALUE''],
           Called ''AlterTableCreateToastTable'' []]\<rparr>)"
    by (rule CreateStmt_table_trace)
  show "standard_ProcessUtility (T_CreateStmt [T_CreateStmt sub]) queryString isTopLevel
           completionTag env st =
         (None, (report completionTag [] st)\<lparr>trace := trace st @
            [Called ''DefineRelation'' [''RELKIND_RELATION''], CCI,
             Called ''transformRelOptions'' [''toast''],
             Called ''heap_reloptions'' [''RELKIND_TOASTVALUE''],
             Called ''AlterTableCreateToastTable'' []]\<rparr>)"
    if that: "\<not> (PGXC env \<and> isTopLevel)"
  proof -
    have "(if PGXC env \<and> isTopLevel
           then AddRemoteQueryNode [T_CreateStmt sub] queryString EXEC_ON_ALL_NODES env
           else [T_CreateStmt sub]) = [T_CreateStmt sub]"
      by (simp only: that if_False)
    then show ?thesis
      by (cases completionTag)
         (simp_all add: standard_ProcessUtility_CreateStmt pass CreateStmt_foreach_block
            CreateStmt_foreach_body_def IsA_CreateStmt_def CreateStmt_table_trace block_simps
            clear_completionTag_def report_def)
  qed
qed

theorem create_table_expansion_witness:
  "standard_ProcessUtility (T_CreateStmt [T_CreateStmt [], T_CreateForeignTableStmt []])
       ''CREATE TABLE t (a text)'' False None coordinator_env idle_state =
     (None, idle_state\<lparr>trace :=
        [Called ''DefineRelation'' [''RELKIND_RELATION''], CCI,
         Called ''transformRelOptions'' [''toast''],
         Called ''heap_reloptions'' [''RELKIND_TOASTVALUE''],
         Called ''AlterTableCreateToastTable'' [],
         CCI,
         Called ''DefineRelation'' [''RELKIND_FOREIGN_TABLE''],
         Called ''CreateForeignTable'' []]\<rparr>) \<and>
   standard_ProcessUtility (T_CreateStmt [T_CreateStmt []]) ''CREATE TABLE t (a text)'' False
       (Some 0) coordinator_env idle_state =
     (None, idle_state\<lparr>mem := (mem idle_state)(0 := []), trace :=
        [Called ''DefineRelation'' [''RELKIND_RELATION''], CCI,
         Called ''transformRelOptions'' [''toast''],
         Called ''heap_reloptions'' [''RELKIND_TOASTVALUE''],
         Called ''AlterTableCreateToastTable'' []]\<rparr>)"
proof -
  have ro: "\<not> XactReadOnly coordinator_env"
    by (simp add: coordinator_env_def)
  from create_table_expansion [OF ro, of "[T_CreateStmt [], T_CreateForeignTableStmt []]"
      "''CREATE TABLE t (a text)''" False None idle_state]
    create_table_expansion [OF ro, of _ "''CREATE TABLE t (a text)''" False "Some 0" idle_state "[]"]
  show ?thesis
    by (simp add: IsA_CreateStmt_def IsA_CreateForeignTableStmt_def CreateStmt_table_def
          CreateStmt_foreign_table_def call_def CommandCounterIncrement_def block_simps
          report_def idle_state_def)
qed

subsection \<open>Savepoints\<close>

lemma TransactionStmt_BEGIN:
  "\<not> PGXC env \<Longrightarrow>
   standard_ProcessUtility (T_TransactionStmt TRANS_STMT_BEGIN [] gid) queryString isTopLevel
       completionTag env st =
     (None, (report completionTag [] st)
        \<lparr>blockState := InBlock, trace := trace st @ [Called ''BeginTransactionBlock'' []]\<rparr>)"
  by (cases completionTag)
     (simp_all add: standard_ProcessUtility_TransactionStmt TransactionStmt_switch_def
        clear_completionTag_def report_def proc_defs block_simps)

lemma TransactionStmt_SAVEPOINT:
  "\<not> PGXC env \<Longrightarrow>
   standard_ProcessUtility (T_TransactionStmt TRANS_STMT_SAVEPOINT [(''savepoint_name'', a)] gid)
       queryString isTopLevel completionTag env st =
     (if blockState st = InBlock
      then (None, (report completionTag [] st)
              \<lparr>trace := trace st @ [Called ''DefineSavepoint'' [a]]\<rparr>)
      else (Some (requires_transaction_block ''SAVEPOINT''), report completionTag [] st))"
  by (cases completionTag)
     (simp_all add: standard_ProcessUtility_TransactionStmt TransactionStmt_switch_def
        savepoint_name_def clear_completionTag_def report_def proc_defs block_simps)

lemma TransactionStmt_SAVEPOINT_PGXC:
  "PGXC env \<Longrightarrow>
   standard_ProcessUtility (T_TransactionStmt TRANS_STMT_SAVEPOINT options gid)
       queryString isTopLevel completionTag env st =
     (Some (ereport_error ERRCODE_STATEMENT_TOO_COMPLEX ''SAVEPOINT is not yet supported.'' []),
      report completionTag [] st)"
  by (cases completionTag)
     (simp_all add: standard_ProcessUtility_TransactionStmt TransactionStmt_switch_def
        clear_completionTag_def report_def proc_defs block_simps)

lemma TransactionStmt_ROLLBACK_TO:
  "blockState st = InBlock \<Longrightarrow>
   standard_ProcessUtility (T_TransactionStmt TRANS_STMT_ROLLBACK_TO options gid)
       queryString isTopLevel completionTag env st =
     (None, (report completionTag [] st)
        \<lparr>trace := trace st @ [Called ''RollbackToSavepoint'' (map snd options)]\<rparr>)"
  by (cases completionTag)
     (simp_all add: standard_ProcessUtility_TransactionStmt TransactionStmt_switch_def
        clear_completionTag_def report_def proc_defs block_simps)

lemma TransactionStmt_COMMIT:
  "fst (standard_ProcessUtility (T_TransactionStmt TRANS_STMT_COMMIT options gid)
       queryString isTopLevel completionTag env st) = None"
  by (cases completionTag)
     (simp_all add: standard_ProcessUtility_TransactionStmt TransactionStmt_switch_def
        clear_completionTag_def report_def proc_defs block_simps)

lemma blockState_report [simp]: "blockState (report completionTag s st) = blockState st"
  by (cases completionTag) (simp_all add: report_def)

text \<open>
  In the clustered build, the second statement of the sequence BEGIN; SAVEPOINT a fails:
  the branch of SAVEPOINT raises "SAVEPOINT is not yet supported." before it looks at the
  transaction block, inside a block and outside of one.
\<close>

theorem savepoint_in_clustered_build_counterexample:
  "fst (standard_ProcessUtility (T_TransactionStmt TRANS_STMT_BEGIN [] []) ''BEGIN'' True None
          coordinator_env idle_state) = None \<and>
   blockState (snd (standard_ProcessUtility (T_TransactionStmt TRANS_STMT_BEGIN [] []) ''BEGIN''
          True None coordinator_env idle_state)) = InBlock \<and>
   fst (standard_ProcessUtility
          (T_TransactionStmt TRANS_STMT_SAVEPOINT [(''savepoint_name'', ''a'')] [])
          ''SAVEPOINT a'' True None coordinator_env
          (snd (standard_ProcessUtility (T_TransactionStmt TRANS_STMT_BEGIN [] []) ''BEGIN''
                  True None coordinator_env idle_state))) =
     Some (ereport_error ERRCODE_STATEMENT_TOO_COMPLEX ''SAVEPOINT is not yet supported.'' []) \<and>
   fst (standard_ProcessUtility
          (T_TransactionStmt TRANS_STMT_SAVEPOINT [(''savepoint_name'', ''a'')] [])
          ''SAVEPOINT a'' True None coordinator_env idle_state) \<noteq>
     Some (requires_transaction_block ''SAVEPOINT'')"
  by (simp add: standard_ProcessUtility_TransactionStmt TransactionStmt_switch_def
        clear_completionTag_def proc_defs block_simps coordinator_env_def idle_state_def)

text \<open>
  Claim C4.  In the build without the cluster code, the statements BEGIN; SAVEPOINT a;
  ROLLBACK TO a; COMMIT, dispatched one after the other at top level, all succeed, and
  a SAVEPOINT dispatched outside a transaction block fails with the error of
  \<^verbatim>\<open>RequireTransactionChain\<close>.  In the clustered build every dispatch of SAVEPOINT fails
  with the error "SAVEPOINT is not yet supported.".
\<close>

theorem savepoint_sequence_by_build:
  "(\<not> PGXC env \<longrightarrow>
      (let s1 = snd (standard_ProcessUtility (T_TransactionStmt TRANS_STMT_BEGIN [] [])
                       q_begin True completionTag env st);
           s2 = snd (standard_ProcessUtility
                       (T_TransactionStmt TRANS_STMT_SAVEPOINT [(''savepoint_name'', a)] [])
                       q_savepoint True completionTag env s1);
           s3 = snd (standard_ProcessUtility
                       (T_TransactionStmt TRANS_STMT_ROLLBACK_TO [(''savepoint_name'', a)] [])
                       q_rollback_to True completionTag env s2)
       in fst (standard_ProcessUtility (T_TransactionStmt TRANS_STMT_BEGIN [] [])
                 q_begin True completionTag env st) = None \<and>
          fst (standard_ProcessUtility
                 (T_TransactionStmt TRANS_STMT_SAVEPOINT [(''savepoint_name'', a)] [])
                 q_savepoint True completionTag env s1) = None \<and>
          fst (standard_ProcessUtility
                 (T_TransactionStmt TRANS_STMT_ROLLBACK_TO [(''savepoint_name'', a)] [])
                 q_rollback_to True completionTag env s2) = None \<and>
          fst (standard_ProcessUtility (T_TransactionStmt TRANS_STMT_COMMIT [] [])
                 q_commit True completionTag env s3) = None) \<and>
      (blockState st \<noteq> InBlock \<longrightarrow>
         fst (standard_ProcessUtility
                (T_TransactionStmt TRANS_STMT_SAVEPOINT [(''savepoint_name'', a)] [])
                q_savepoint True completionTag env st) =
           Some (requires_transaction_block ''SAVEPOINT''))) \<and>
   (PGXC env \<longrightarrow>
      fst (standard_ProcessUtility (T_TransactionStmt TRANS_STMT_SAVEPOINT options gid)
             q_savepoint isTopLevel completionTag env st) =
        Some (ereport_error ERRCODE_STATEMENT_TOO_COMPLEX ''SAVEPOINT is not yet supported.'' []))"
  by (simp add: Let_def TransactionStmt_BEGIN TransactionStmt_SAVEPOINT
        TransactionStmt_SAVEPOINT_PGXC TransactionStmt_ROLLBACK_TO TransactionStmt_COMMIT)

theorem savepoint_sequence_by_build_witness:
  "fst (standard_ProcessUtility (T_TransactionStmt TRANS_STMT_COMMIT [] []) ''COMMIT'' True None
          (coordinator_env\<lparr>PGXC := False\<rparr>)
          (snd (standard_ProcessUtility
                  (T_TransactionStmt TRANS_STMT_ROLLBACK_TO [(''savepoint_name'', ''a'')] [])
                  ''ROLLBACK TO a'' True None (coordinator_env\<lparr>PGXC := False\<rparr>)
                  (snd (standard_ProcessUtility
                          (T_TransactionStmt TRANS_STMT_SAVEPOINT [(''savepoint_name'', ''a'')] [])
                          ''SAVEPOINT a'' True None (coordinator_env\<lparr>PGXC := False\<rparr>)
                          (snd (standard_ProcessUtility
                                  (T_TransactionStmt TRANS_STMT_BEGIN [] []) ''BEGIN'' True None
                                  (coordinator_env\<lparr>PGXC := False\<rparr>) idle_state))))))) = None \<and>
   fst (standard_ProcessUtility
          (T_TransactionStmt TRANS_STMT_SAVEPOINT [(''savepoint_name'', ''a'')] [])
          ''SAVEPOINT a'' True None (coordinator_env\<lparr>PGXC := False\<rparr>) idle_state) =
     Some (requires_transaction_block ''SAVEPOINT'') \<and>
   fst (standard_ProcessUtility
          (T_TransactionStmt TRANS_STMT_SAVEPOINT [(''savepoint_name'', ''a'')] [])
          ''SAVEPOINT a'' True None coordinator_env idle_state) =
     Some (ereport_error ERRCODE_STATEMENT_TOO_COMPLEX ''SAVEPOINT is not yet supported.'' [])"
proof -
  have a: "\<not> PGXC (coordinator_env\<lparr>PGXC := False\<rparr>)" "PGXC coordinator_env"
    "blockState idle_state \<noteq> InBlock"
    by (simp_all add: coordinator_env_def idle_state_def)
  from a
    savepoint_sequence_by_build
      [of "coordinator_env\<lparr>PGXC := False\<rparr>" "''BEGIN''" None idle_state "''a''" "''SAVEPOINT a''"
          "''ROLLBACK TO a''" "''COMMIT''"]
    savepoint_sequence_by_build
      [of coordinator_env _ None idle_state _ "''SAVEPOINT a''" _ _
          "[(''savepoint_name'', ''a'')]" "[]" True]
  show ?thesis
    by (simp add: Let_def)
qed

subsection \<open>PREPARE TRANSACTION in the clustered build\<close>

lemma PREPARE_recovery:
  "RecoveryInProgress env \<Longrightarrow>
   standard_ProcessUtility (T_TransactionStmt TRANS_STMT_PREPARE options gid) queryString
       isTopLevel completionTag env st =
     (Some (ereport_error ERRCODE_READ_ONLY_SQL_TRANSACTION
              ''cannot execute PREPARE TRANSACTION during recovery'' []),
      report completionTag [] st)"
  by (cases completionTag)
     (simp_all add: standard_ProcessUtility_TransactionStmt TransactionStmt_switch_def
        clear_completionTag_def report_def proc_defs block_simps)

lemma PREPARE_relay:
  "PGXC env \<Longrightarrow> \<not> RecoveryInProgress env \<Longrightarrow> IsConnFromCoord env \<Longrightarrow>
   standard_ProcessUtility (T_TransactionStmt TRANS_STMT_PREPARE options gid) queryString
       isTopLevel completionTag env st =
     (None,
      (report completionTag (if PrepareTransactionBlock_result env then [] else ''ROLLBACK'') st)
        \<lparr>blockState := PreparedPendingRemote,
         trace := trace st @ [Called ''PrepareTransactionBlock'' [gid]]\<rparr>)"
  by (cases completionTag)
     (simp_all add: standard_ProcessUtility_TransactionStmt TransactionStmt_switch_def
        clear_completionTag_def report_def proc_defs block_simps)

lemma PREPARE_origin_local_commit:
  "PGXC env \<Longrightarrow> \<not> RecoveryInProgress env \<Longrightarrow> IS_PGXC_COORDINATOR env \<Longrightarrow>
   \<not> IsConnFromCoord env \<Longrightarrow> \<not> PGXCNodePrepare_result env \<Longrightarrow>
   standard_ProcessUtility (T_TransactionStmt TRANS_STMT_PREPARE options gid) queryString
       isTopLevel completionTag env st =
     (None,
      (report completionTag (if EndTransactionBlock_result env then [] else ''ROLLBACK'') st)
        \<lparr>blockState := Idle,
         trace := trace st @
           [Called ''PGXCNodePrepare'' [gid], Called ''EndTransactionBlock'' [''false'']]\<rparr>)"
  by (cases completionTag)
     (simp_all add: standard_ProcessUtility_TransactionStmt TransactionStmt_switch_def
        clear_completionTag_def report_def proc_defs block_simps)

lemma PREPARE_origin_durable:
  "PGXC env \<Longrightarrow> \<not> RecoveryInProgress env \<Longrightarrow> IS_PGXC_COORDINATOR env \<Longrightarrow>
   \<not> IsConnFromCoord env \<Longrightarrow> PGXCNodePrepare_result env \<Longrightarrow>
   standard_ProcessUtility (T_TransactionStmt TRANS_STMT_PREPARE options gid) queryString
       isTopLevel completionTag env st =
     (None,
      (report completionTag (if PrepareTransactionBlock_result env then [] else ''ROLLBACK'') st)
        \<lparr>blockState := PreparedPendingRemote,
         trace := trace st @
           [Called ''PGXCNodePrepare'' [gid], Called ''PrepareTransactionBlock'' [gid]]\<rparr>)"
  by (cases completionTag)
     (simp_all add: standard_ProcessUtility_TransactionStmt TransactionStmt_switch_def
        clear_completionTag_def report_def proc_defs block_simps)

text \<open>
  Claim C1.  In the clustered build, PREPARE TRANSACTION is refused during recovery.
  Outside recovery, a node that got the statement from a coordinator calls
  \<^verbatim>\<open>PrepareTransactionBlock\<close>, whatever else holds.  A coordinator that got it from a
  client calls \<^verbatim>\<open>PGXCNodePrepare\<close> first; when that call answers false, the node
  does not call \<^verbatim>\<open>PrepareTransactionBlock\<close> but \<^verbatim>\<open>EndTransactionBlock(false)\<close>, and
  the completion tag is \<open>ROLLBACK\<close> exactly when that call fails (and stays empty
  otherwise); when \<^verbatim>\<open>PGXCNodePrepare\<close> answers true, the node prepares durably.  No
  branch raises an error.
\<close>

theorem prepare_transaction_clustered:
  assumes "PGXC env"
  shows
  "(RecoveryInProgress env \<longrightarrow>
      standard_ProcessUtility (T_TransactionStmt TRANS_STMT_PREPARE options gid) queryString
          isTopLevel completionTag env st =
        (Some (ereport_error ERRCODE_READ_ONLY_SQL_TRANSACTION
                 ''cannot execute PREPARE TRANSACTION during recovery'' []),
         report completionTag [] st)) \<and>
   (\<not> RecoveryInProgress env \<and> IsConnFromCoord env \<longrightarrow>
      standard_ProcessUtility (T_TransactionStmt TRANS_STMT_PREPARE options gid) queryString
          isTopLevel completionTag env st =
        (None,
         (report completionTag (if PrepareTransactionBlock_result env then [] else ''ROLLBACK'') st)
           \<lparr>blockState := PreparedPendingRemote,
            trace := trace st @ [Called ''PrepareTransactionBlock'' [gid]]\<rparr>)) \<and>
   (\<not> RecoveryInProgress env \<and> IS_PGXC_COORDINATOR env \<and> \<not> IsConnFromCoord env \<and>
    \<not> PGXCNodePrepare_result env \<longrightarrow>
      standard_ProcessUtility (T_TransactionStmt TRANS_STMT_PREPARE options gid) queryString
          isTopLevel completionTag env st =
        (None,
         (report completionTag (if EndTransactionBlock_result env then [] else ''ROLLBACK'') st)
           \<lparr>blockState := Idle,
            trace := trace st @
              [Called ''PGXCNodePrepare'' [gid], Called ''EndTransactionBlock'' [''false'']]\<rparr>)) \<and>
   (\<not> RecoveryInProgress env \<and> IS_PGXC_COORDINATOR env \<and> \<not> IsConnFromCoord env \<and>
    PGXCNodePrepare_result env \<longrightarrow>
      standard_ProcessUtility (T_TransactionStmt TRANS_STMT_PREPARE options gid) queryString
          isTopLevel completionTag env st =
        (None,
         (report completionTag (if PrepareTransactionBlock_result env then [] else ''ROLLBACK'') st)
           \<lparr>blockState := PreparedPendingRemote,
            trace := trace st @
              [Called ''PGXCNodePrepare'' [gid], Called ''PrepareTransactionBlock'' [gid]]\<rparr>))"
  by (insert assms, intro conjI impI; (elim conjE)?;
      (rule PREPARE_recovery PREPARE_relay PREPARE_origin_local_commit PREPARE_origin_durable;
       assumption))

theorem prepare_transaction_clustered_witness:
  "standard_ProcessUtility (T_TransactionStmt TRANS_STMT_PREPARE [] ''g'')
       ''PREPARE TRANSACTION g'' True (Some 0) coordinator_env idle_state =
     (None, idle_state\<lparr>blockState := Idle, mem := (mem idle_state)(0 := []),
        trace := [Called ''PGXCNodePrepare'' [''g''], Called ''EndTransactionBlock'' [''false'']]\<rparr>) \<and>
   standard_ProcessUtility (T_TransactionStmt TRANS_STMT_PREPARE [] ''g'')
       ''PREPARE TRANSACTION g'' True (Some 0)
       (coordinator_env\<lparr>EndTransactionBlock_result := False\<rparr>) idle_state =
     (None, idle_state\<lparr>blockState := Idle, mem := (mem idle_state)(0 := ''ROLLBACK''),
        trace := [Called ''PGXCNodePrepare'' [''g''], Called ''EndTransactionBlock'' [''false'']]\<rparr>) \<and>
   standard_ProcessUtility (T_TransactionStmt TRANS_STMT_PREPARE [] ''g'')
       ''PREPARE TRANSACTION g'' True (Some 0)
       (coordinator_env\<lparr>IsConnFromCoord := True\<rparr>) idle_state =
     (None, idle_state\<lparr>blockState := PreparedPendingRemote, mem := (mem idle_state)(0 := []),
        trace := [Called ''PrepareTransactionBlock'' [''g'']]\<rparr>)"
proof -
  have a: "PGXC coordinator_env" "PGXC (coordinator_env\<lparr>EndTransactionBlock_result := False\<rparr>)"
    "PGXC (coordinator_env\<lparr>IsConnFromCoord := True\<rparr>)"
    by (simp_all add: coordinator_env_def)
  from prepare_transaction_clustered [OF a(1), of "[]" "''g''" "''PREPARE TRANSACTION g''" True
      "Some 0" idle_state]
    prepare_transaction_clustered [OF a(2), of "[]" "''g''" "''PREPARE TRANSACTION g''" True
      "Some 0" idle_state]
    prepare_transaction_clustered [OF a(3), of "[]" "''g''" "''PREPARE TRANSACTION g''" True
      "Some 0" idle_state]
  show ?thesis
    by (simp add: coordinator_env_def report_def idle_state_def)
qed

subsection \<open>Utility statements that return tuples\<close>










end
